theory Spec2Isabelle
  imports Main
begin

section \<open>Constants of \<open>src/index.ts\<close>\<close>

definition DEFAULT_MODEL :: string where
  "DEFAULT_MODEL = ''gemini-2.5-flash-image''"

definition SUPPORTED_MODELS :: "string list" where
  "SUPPORTED_MODELS = [DEFAULT_MODEL, ''gemini-3-pro-image-preview'']"

definition MAX_IMAGE_SIZE_BYTES :: nat where
  "MAX_IMAGE_SIZE_BYTES = 20 * 1024 * 1024"

definition ALLOWED_IMAGE_EXTENSIONS :: "string list" where
  "ALLOWED_IMAGE_EXTENSIONS = [''.jpg'', ''.jpeg'', ''.png'', ''.webp'', ''.gif'']"

definition CONFIG_FILE_NAME :: string where
  "CONFIG_FILE_NAME = ''.nano-banana-config.json''"

section \<open>Strings and numbers of the JavaScript runtime\<close>

text \<open>The double quote and the line feed, which the messages of the source contain.\<close>

abbreviation (input) dq :: string where
  "dq \<equiv> [CHR 0x22]"

abbreviation (input) nl :: string where
  "nl \<equiv> [CHR 0x0A]"

text \<open>\<open>String.prototype.toLowerCase\<close> on the ASCII letters; every other byte is kept.\<close>

definition lower_char :: "char \<Rightarrow> char" where
  "lower_char c =
     (case map_of (zip ''ABCDEFGHIJKLMNOPQRSTUVWXYZ'' ''abcdefghijklmnopqrstuvwxyz'') c of
        Some l \<Rightarrow> l
      | None \<Rightarrow> c)"

definition toLowerCase :: "string \<Rightarrow> string" where
  "toLowerCase s = map lower_char s"

text \<open>\<open>Array.prototype.join\<close>.\<close>

fun join :: "string \<Rightarrow> string list \<Rightarrow> string" where
  "join sep [] = []"
| "join sep [x] = x"
| "join sep (x # y # ys) = x @ sep @ join sep (y # ys)"

text \<open>The template \<open>list.map((f) => `- ${f}`).join("\n")\<close> of the status text.\<close>

definition bullets :: "string list \<Rightarrow> string" where
  "bullets xs = join nl (map (\<lambda>f. ''- '' @ f) xs)"

text \<open>\<open>String(n)\<close> for a non-negative integer: its decimal digits.\<close>

definition digit :: "nat \<Rightarrow> char" where
  "digit d = ''0123456789'' ! d"

function show_nat :: "nat \<Rightarrow> string" where
  "show_nat n = (if n < 10 then [digit n] else show_nat (n div 10) @ [digit (n mod 10)])"
  by pat_completeness auto
termination
  by (relation "measure id") auto

declare show_nat.simps [simp del]

text \<open>\<open>Math.round(n / d)\<close> for non-negative integers: the nearest integer, a tie going up.\<close>

definition round_div :: "nat \<Rightarrow> nat \<Rightarrow> nat" where
  "round_div n d = (2 * n + d) div (2 * d)"

text \<open>A JavaScript condition on an optional string: \<open>undefined\<close>, \<open>null\<close> and the empty
  string are falsy.\<close>

definition truthy :: "string option \<Rightarrow> bool" where
  "truthy x = (case x of None \<Rightarrow> False | Some s \<Rightarrow> s \<noteq> [])"

section \<open>Errors\<close>

datatype ErrorCode = InvalidParams | InvalidRequest | InternalError | MethodNotFound

text \<open>A thrown value: an \<open>McpError\<close> with its code and the message given to its constructor, or
  a plain \<open>Error\<close> (of the file system, of the provider) with its message.\<close>

datatype failure = McpError ErrorCode string | Error string

section \<open>Data of the source\<close>

record Config =
  geminiApiKey :: string

datatype configSourceT = environment | config_file | not_configured

text \<open>The fields of class \<open>NanoBananaMCP\<close>. The \<open>GoogleGenAI\<close> client is the key it was
  built from; its constructor is taken not to throw.\<close>

record NanoBananaMCP =
  config :: "Config option"
  genAI :: "string option"
  lastImagePath :: "string option"
  configSource :: configSourceT

definition initial_server :: NanoBananaMCP where
  "initial_server =
     \<lparr>config = None, genAI = None, lastImagePath = None, configSource = not_configured\<rparr>"

text \<open>\<open>ContentPart = ImagePart | TextPart\<close>, the parts of a request.\<close>

datatype ContentPart = ImagePart string string | TextPart string

datatype contents = PromptOnly string | Parts "ContentPart list"

record gen_request =
  req_apiKey :: string
  req_model :: string
  req_contents :: contents

text \<open>The response of the provider, every level optional as in the parameter type of
  \<open>buildImageResponse\<close>.\<close>

record inline_data =
  inl_data :: "string option"
  inl_mimeType :: "string option"

record resp_part =
  part_text :: "string option"
  part_inlineData :: "inline_data option"

record resp_content =
  content_parts :: "resp_part list option"

record candidate =
  cand_content :: "resp_content option"

record response =
  candidates :: "candidate list option"

text \<open>The items of \<open>CallToolResult["content"]\<close>.\<close>

datatype content_item = TextItem string | ImageItem string string

type_synonym CallToolResult = "content_item list"

record SavedImage =
  saved_filePath :: string
  saved_base64 :: string
  saved_mimeType :: string

text \<open>A parsed JSON value, as far as \<open>ConfigSchema\<close> tells values apart.\<close>

datatype json = JString string | JObject "(string \<times> json) list" | JOther

section \<open>The runtime and the world\<close>

text \<open>The library functions and process constants the source calls, as parameters:
  \<open>path.resolve\<close>, \<open>path.extname\<close>, \<open>path.join\<close>, the base64 codec of \<open>Buffer\<close>,
  \<open>JSON.parse\<close> and \<open>JSON.stringify(_, null, 2)\<close>, the \<open>message\<close> property the SDK gives an
  \<open>McpError\<close>, \<open>os.platform()\<close>, \<open>process.cwd()\<close>, \<open>os.homedir()\<close> and
  \<open>process.env.GEMINI_API_KEY\<close>.\<close>

record runtime =
  path_resolve :: "string \<Rightarrow> string"
  path_extname :: "string \<Rightarrow> string"
  path_join :: "string list \<Rightarrow> string"
  b64encode :: "string \<Rightarrow> string"
  b64decode :: "string \<Rightarrow> string"
  JSON_parse :: "string \<Rightarrow> json option"
  JSON_stringify :: "json \<Rightarrow> string"
  mcp_message :: "ErrorCode \<Rightarrow> string \<Rightarrow> string"
  os_platform :: string
  process_cwd :: string
  os_homedir :: string
  env_GEMINI_API_KEY :: "string option"

text \<open>A regular file: the size \<open>fs.stat\<close> reports and what \<open>fs.readFile\<close> gives, an error
  message or the bytes.\<close>

record fs_file =
  fsize :: nat
  fbytes :: "string + string"

text \<open>The world outside the process: the files, which paths refuse \<open>mkdir\<close> and
  \<open>writeFile\<close> (with the message), the message of a read of a missing file, the text of
  \<open>mtime.toLocaleString()\<close>, the clock and the random source (read once per saved image,
  counted by \<open>ticks\<close>), the provider, and the logs of the remote calls and of the file
  writes made so far.\<close>

record world =
  files :: "string \<Rightarrow> fs_file option"
  mkdir_error :: "string \<Rightarrow> string option"
  write_error :: "string \<Rightarrow> string option"
  enoent :: "string \<Rightarrow> string"
  mtime_text :: "string \<Rightarrow> string"
  now_iso :: "nat \<Rightarrow> string"
  random_id :: "nat \<Rightarrow> string"
  ticks :: nat
  provider :: "gen_request \<Rightarrow> string + response"
  remote_log :: "gen_request list"
  write_log :: "(string \<times> string) list"

definition fs_stat :: "world \<Rightarrow> string \<Rightarrow> nat option" where
  "fs_stat w p = map_option fsize (files w p)"

definition fs_access :: "world \<Rightarrow> string \<Rightarrow> bool" where
  "fs_access w p = (files w p \<noteq> None)"

definition fs_readFile :: "world \<Rightarrow> string \<Rightarrow> string + string" where
  "fs_readFile w p = (case files w p of None \<Rightarrow> Inl (enoent w p) | Some f \<Rightarrow> fbytes f)"

definition fs_writeFile :: "world \<Rightarrow> string \<Rightarrow> string \<Rightarrow> (string + unit) \<times> world" where
  "fs_writeFile w p d =
     (case write_error w p of
        Some m \<Rightarrow> (Inl m, w)
      | None \<Rightarrow>
          (Inr (), w\<lparr>files := (files w)(p \<mapsto> \<lparr>fsize = length d, fbytes = Inr d\<rparr>),
                      write_log := write_log w @ [(p, d)]\<rparr>))"

text \<open>\<open>error instanceof Error ? error.message : String(error)\<close>: both kinds are \<open>Error\<close>s.\<close>

definition message :: "runtime \<Rightarrow> failure \<Rightarrow> string" where
  "message rt e = (case e of McpError c m \<Rightarrow> mcp_message rt c m | Error m \<Rightarrow> m)"

section \<open>Validation helpers\<close>

definition validateImagePath :: "runtime \<Rightarrow> world \<Rightarrow> string \<Rightarrow> failure + unit" where
  "validateImagePath rt w filePath =
     (let resolved = path_resolve rt filePath;
          ext = toLowerCase (path_extname rt resolved)
      in if ext \<notin> set ALLOWED_IMAGE_EXTENSIONS
         then Inl (McpError InvalidParams
                (''Unsupported image format '' @ dq @ ext @ dq @ ''. Allowed: ''
                  @ join '', '' ALLOWED_IMAGE_EXTENSIONS))
         else case fs_stat w resolved of
           None \<Rightarrow> Inl (McpError InvalidParams (''Image file not found: '' @ filePath))
         | Some sz \<Rightarrow>
             if sz > MAX_IMAGE_SIZE_BYTES
             then Inl (McpError InvalidParams
                    (''Image file too large ('' @ show_nat (round_div sz (1024 * 1024))
                      @ ''MB). Maximum: '' @ show_nat (MAX_IMAGE_SIZE_BYTES div 1024 div 1024)
                      @ ''MB''))
             else Inr ())"

definition resolveModel :: "string option \<Rightarrow> failure + string" where
  "resolveModel model =
     (case model of
        None \<Rightarrow> Inr DEFAULT_MODEL
      | Some m \<Rightarrow>
          if m = [] then Inr DEFAULT_MODEL
          else if m \<in> set SUPPORTED_MODELS then Inr m
          else Inl (McpError InvalidParams
                 (''Unsupported model '' @ dq @ m @ dq @ ''. Supported: ''
                   @ join '', '' SUPPORTED_MODELS)))"

section \<open>Utilities\<close>

definition ensureConfigured :: "NanoBananaMCP \<Rightarrow> bool" where
  "ensureConfigured s = (config s \<noteq> None \<and> genAI s \<noteq> None)"

definition getMimeType :: "runtime \<Rightarrow> string \<Rightarrow> string" where
  "getMimeType rt fp =
     (let ext = toLowerCase (path_extname rt fp)
      in case map_of [(''.jpg'', ''image/jpeg''), (''.jpeg'', ''image/jpeg''),
                      (''.png'', ''image/png''), (''.webp'', ''image/webp''),
                      (''.gif'', ''image/gif'')] ext of
           Some t \<Rightarrow> if t \<noteq> [] then t else ''image/jpeg''
         | None \<Rightarrow> ''image/jpeg'')"

definition startsWith :: "string \<Rightarrow> string \<Rightarrow> bool" where
  "startsWith s pre = (take (length pre) s = pre)"

definition getImagesDirectory :: "runtime \<Rightarrow> string" where
  "getImagesDirectory rt =
     (if os_platform rt = ''win32''
      then path_join rt [os_homedir rt, ''Documents'', ''nano-banana-images'']
      else let cwd = process_cwd rt
           in if startsWith cwd ''/usr/'' \<or> startsWith cwd ''/opt/'' \<or> startsWith cwd ''/var/''
              then path_join rt [os_homedir rt, ''nano-banana-images'']
              else path_join rt [cwd, ''generated_imgs''])"

definition getConfigPath :: "runtime \<Rightarrow> string" where
  "getConfigPath rt = path_join rt [os_homedir rt, CONFIG_FILE_NAME]"

text \<open>\<open>ConfigSchema.parse\<close>: an object whose \<open>geminiApiKey\<close> is a string of at least one
  character; other keys are dropped. \<open>None\<close> is the thrown \<open>ZodError\<close>.\<close>

definition ConfigSchema_parse :: "json \<Rightarrow> Config option" where
  "ConfigSchema_parse j =
     (case j of
        JObject kvs \<Rightarrow>
          (case map_of kvs ''geminiApiKey'' of
             Some (JString k) \<Rightarrow> if 1 \<le> length k then Some \<lparr>geminiApiKey = k\<rparr> else None
           | _ \<Rightarrow> None)
      | _ \<Rightarrow> None)"

definition Config_json :: "Config \<Rightarrow> json" where
  "Config_json c = JObject [(''geminiApiKey'', JString (geminiApiKey c))]"

definition saveConfig :: "runtime \<Rightarrow> NanoBananaMCP \<times> world \<Rightarrow> (failure + unit) \<times> world" where
  "saveConfig rt st =
     (case st of (s, w) \<Rightarrow>
        (case config s of
           None \<Rightarrow> (Inr (), w)
         | Some c \<Rightarrow>
             (case fs_writeFile w (getConfigPath rt) (JSON_stringify rt (Config_json c)) of
                (Inl m, w1) \<Rightarrow> (Inl (Error m), w1)
              | (Inr u, w1) \<Rightarrow> (Inr (), w1))))"

definition loadConfig_file :: "runtime \<Rightarrow> world \<Rightarrow> NanoBananaMCP \<Rightarrow> NanoBananaMCP" where
  "loadConfig_file rt w s =
     (case fs_readFile w (getConfigPath rt) of
        Inl m \<Rightarrow> s\<lparr>configSource := not_configured\<rparr>
      | Inr configData \<Rightarrow>
          (case JSON_parse rt configData of
             None \<Rightarrow> s\<lparr>configSource := not_configured\<rparr>
           | Some parsedConfig \<Rightarrow>
               (case ConfigSchema_parse parsedConfig of
                  None \<Rightarrow> s\<lparr>configSource := not_configured\<rparr>
                | Some c \<Rightarrow>
                    s\<lparr>config := Some c, genAI := Some (geminiApiKey c),
                      configSource := config_file\<rparr>)))"

definition loadConfig :: "runtime \<Rightarrow> world \<Rightarrow> NanoBananaMCP \<Rightarrow> NanoBananaMCP" where
  "loadConfig rt w s =
     (case env_GEMINI_API_KEY rt of
        None \<Rightarrow> loadConfig_file rt w s
      | Some envApiKey \<Rightarrow>
          if envApiKey = [] then loadConfig_file rt w s
          else (case ConfigSchema_parse (JObject [(''geminiApiKey'', JString envApiKey)]) of
                  Some c \<Rightarrow>
                    s\<lparr>config := Some c, genAI := Some (geminiApiKey c),
                      configSource := environment\<rparr>
                | None \<Rightarrow> loadConfig_file rt w s))"

section \<open>The shared response builder\<close>

definition saveImage ::
  "runtime \<Rightarrow> string \<Rightarrow> string \<Rightarrow> string \<Rightarrow> world \<Rightarrow> (failure + SavedImage) \<times> world" where
  "saveImage rt imagesDir prefix base64Data w =
     (let timestamp = map (\<lambda>c. if c = CHR '':'' \<or> c = CHR ''.'' then CHR ''-'' else c)
                          (now_iso w (ticks w));
          randomId = random_id w (ticks w);
          fileName = prefix @ ''-'' @ timestamp @ ''-'' @ randomId @ ''.png'';
          fp = path_join rt [imagesDir, fileName];
          w1 = w\<lparr>ticks := Suc (ticks w)\<rparr>
      in case fs_writeFile w1 fp (b64decode rt base64Data) of
           (Inl m, w2) \<Rightarrow> (Inl (Error m), w2)
         | (Inr u, w2) \<Rightarrow>
             (Inr \<lparr>saved_filePath = fp, saved_base64 = base64Data, saved_mimeType = ''image/png''\<rparr>, w2))"

text \<open>\<open>part.inlineData?.data\<close> when it is truthy.\<close>

definition image_data :: "resp_part \<Rightarrow> string option" where
  "image_data part =
     (case part_inlineData part of
        None \<Rightarrow> None
      | Some i \<Rightarrow> if truthy (inl_data i) then inl_data i else None)"

text \<open>\<open>part.inlineData.mimeType || "image/png"\<close>.\<close>

definition image_mime :: "resp_part \<Rightarrow> string" where
  "image_mime part =
     (case part_inlineData part of
        None \<Rightarrow> ''image/png''
      | Some i \<Rightarrow> if truthy (inl_mimeType i) then the (inl_mimeType i) else ''image/png'')"

text \<open>The loop over the parts, on the three accumulators \<open>textContent\<close>, \<open>savedFiles\<close> and
  \<open>content\<close>. A failed write leaves the loop with the state reached so far.\<close>

fun buildImageResponse_loop ::
  "runtime \<Rightarrow> string \<Rightarrow> string \<Rightarrow> resp_part list \<Rightarrow> string \<times> string list \<times> content_item list
    \<Rightarrow> NanoBananaMCP \<times> world
    \<Rightarrow> (failure + string \<times> string list \<times> content_item list) \<times> NanoBananaMCP \<times> world" where
  "buildImageResponse_loop rt imagesDir prefix [] acc st = (Inr acc, st)"
| "buildImageResponse_loop rt imagesDir prefix (part # ps) (textContent, savedFiles, content) (s, w) =
     (let textContent1 =
            (if truthy (part_text part) then textContent @ the (part_text part) else textContent)
      in case image_data part of
           None \<Rightarrow>
             buildImageResponse_loop rt imagesDir prefix ps (textContent1, savedFiles, content) (s, w)
         | Some d \<Rightarrow>
             (case saveImage rt imagesDir prefix d w of
                (Inl e, w1) \<Rightarrow> (Inl e, s, w1)
              | (Inr saved, w1) \<Rightarrow>
                  buildImageResponse_loop rt imagesDir prefix ps
                    (textContent1, savedFiles @ [saved_filePath saved],
                     content @ [ImageItem d (image_mime part)])
                    (s\<lparr>lastImagePath := Some (saved_filePath saved)\<rparr>, w1)))"

text \<open>\<open>response.candidates?.[0]?.content?.parts\<close>; without it the loop is not entered,
  which is the loop over no part.\<close>

definition first_parts :: "response \<Rightarrow> resp_part list" where
  "first_parts r =
     (case candidates r of
        None \<Rightarrow> []
      | Some [] \<Rightarrow> []
      | Some (c # cs) \<Rightarrow>
          (case cand_content c of
             None \<Rightarrow> []
           | Some ct \<Rightarrow> (case content_parts ct of None \<Rightarrow> [] | Some ps \<Rightarrow> ps)))"

definition statusText :: "string \<Rightarrow> string \<Rightarrow> string \<Rightarrow> string list \<Rightarrow> string list \<Rightarrow> string" where
  "statusText prefix promptText textContent warnings savedFiles =
     ''Image '' @ (if prefix = ''generated'' then ''generated'' else ''edited'')
     @ '' with nano-banana!'' @ nl @ nl @ ''Prompt: '' @ dq @ promptText @ dq
     @ (if textContent \<noteq> [] then nl @ nl @ ''Description: '' @ textContent else [])
     @ (if length warnings > 0 then nl @ nl @ ''Warnings:'' @ nl @ bullets warnings else [])
     @ (if length savedFiles > 0
        then nl @ nl @ ''Image saved to:'' @ nl @ bullets savedFiles
             @ nl @ nl @ ''To modify this image, use: continue_editing''
             @ nl @ ''To check current image info, use: get_last_image_info''
        else nl @ nl @ ''Note: No image was generated. The model may have returned only text.'')"

definition buildImageResponse ::
  "runtime \<Rightarrow> response \<Rightarrow> string \<Rightarrow> string \<Rightarrow> string list \<Rightarrow> NanoBananaMCP \<times> world
    \<Rightarrow> (failure + CallToolResult) \<times> NanoBananaMCP \<times> world" where
  "buildImageResponse rt resp prefix promptText warnings st =
     (case st of (s, w) \<Rightarrow>
        (let imagesDir = getImagesDirectory rt
         in case mkdir_error w imagesDir of
              Some m \<Rightarrow> (Inl (Error m), s, w)
            | None \<Rightarrow>
                (case buildImageResponse_loop rt imagesDir prefix (first_parts resp)
                        ([], [], []) (s, w) of
                   (Inl e, st1) \<Rightarrow> (Inl e, st1)
                 | (Inr (textContent, savedFiles, content), st1) \<Rightarrow>
                     (Inr (TextItem (statusText prefix promptText textContent warnings savedFiles)
                           # content), st1))))"

section \<open>Tool implementations\<close>

record generate_args =
  gen_prompt :: string
  gen_model :: "string option"

record edit_args =
  edit_imagePath :: string
  edit_prompt :: string
  edit_referenceImages :: "string list option"
  edit_model :: "string option"

record continue_args =
  cont_prompt :: string
  cont_referenceImages :: "string list option"
  cont_model :: "string option"

definition not_configured_error :: failure where
  "not_configured_error =
     McpError InvalidRequest ''Gemini API token not configured. Use configure_gemini_token first.''"

text \<open>\<open>this.genAI!.models.generateContent(...)\<close>: the call is logged, and the provider
  answers or throws. On a \<open>null\<close> client the property access throws before any call.\<close>

definition generateContent ::
  "string option \<Rightarrow> string \<Rightarrow> contents \<Rightarrow> world \<Rightarrow> (failure + response) \<times> world" where
  "generateContent client model c w =
     (case client of
        None \<Rightarrow> (Inl (Error ''Cannot read properties of null''), w)
      | Some k \<Rightarrow>
          (let req = \<lparr>req_apiKey = k, req_model = model, req_contents = c\<rparr>
           in (case provider w req of Inl m \<Rightarrow> Inl (Error m) | Inr r \<Rightarrow> Inr r,
               w\<lparr>remote_log := remote_log w @ [req]\<rparr>)))"

definition configureGeminiToken ::
  "runtime \<Rightarrow> string \<Rightarrow> NanoBananaMCP \<times> world
    \<Rightarrow> (failure + CallToolResult) \<times> NanoBananaMCP \<times> world" where
  "configureGeminiToken rt apiKey st =
     (case st of (s, w) \<Rightarrow>
        (case ConfigSchema_parse (JObject [(''geminiApiKey'', JString apiKey)]) of
           None \<Rightarrow>
             (Inl (McpError InvalidParams (''Invalid API key: '' @ ''Gemini API key is required'')),
              s, w)
         | Some c \<Rightarrow>
             (let s1 = s\<lparr>config := Some \<lparr>geminiApiKey = apiKey\<rparr>, genAI := Some apiKey,
                         configSource := config_file\<rparr>
              in case saveConfig rt (s1, w) of
                   (Inl e, w1) \<Rightarrow> (Inl e, s1, w1)
                 | (Inr u, w1) \<Rightarrow>
                     (Inr [TextItem (''Gemini API token configured successfully. ''
                             @ ''You can now use nano-banana image generation features.'')],
                      s1, w1))))"

definition generateImage ::
  "runtime \<Rightarrow> generate_args \<Rightarrow> NanoBananaMCP \<times> world
    \<Rightarrow> (failure + CallToolResult) \<times> NanoBananaMCP \<times> world" where
  "generateImage rt args st =
     (case st of (s, w) \<Rightarrow>
        if \<not> ensureConfigured s then (Inl not_configured_error, s, w)
        else case resolveModel (gen_model args) of
          Inl e \<Rightarrow> (Inl e, s, w)
        | Inr resolvedModel \<Rightarrow>
            (case generateContent (genAI s) resolvedModel (PromptOnly (gen_prompt args)) w of
               (Inl e, w1) \<Rightarrow>
                 (Inl (McpError InternalError (''Failed to generate image: '' @ message rt e)),
                  s, w1)
             | (Inr resp, w1) \<Rightarrow>
                 (case buildImageResponse rt resp ''generated'' (gen_prompt args) [] (s, w1) of
                    (Inl e, st1) \<Rightarrow>
                      (Inl (McpError InternalError
                             (''Failed to generate image: '' @ message rt e)), st1)
                  | (Inr r, st1) \<Rightarrow> (Inr r, st1))))"

text \<open>The loop over the reference images: each is validated and read on its own, and a
  failure becomes a warning.\<close>

fun editImage_loop ::
  "runtime \<Rightarrow> world \<Rightarrow> string list \<Rightarrow> ContentPart list \<times> string list
    \<Rightarrow> ContentPart list \<times> string list" where
  "editImage_loop rt w [] acc = acc"
| "editImage_loop rt w (refPath # rest) (imageParts, warnings) =
     (case validateImagePath rt w refPath of
        Inl e \<Rightarrow>
          editImage_loop rt w rest
            (imageParts,
             warnings @ [''Skipped reference image '' @ dq @ refPath @ dq @ '': '' @ message rt e])
      | Inr u \<Rightarrow>
          (case fs_readFile w refPath of
             Inl m \<Rightarrow>
               editImage_loop rt w rest
                 (imageParts,
                  warnings @ [''Skipped reference image '' @ dq @ refPath @ dq @ '': '' @ m])
           | Inr refBuffer \<Rightarrow>
               editImage_loop rt w rest
                 (imageParts @ [ImagePart (b64encode rt refBuffer) (getMimeType rt refPath)],
                  warnings)))"

text \<open>The \<open>catch\<close> of \<open>editImage\<close>: an \<open>McpError\<close> is thrown on, anything else is wrapped.\<close>

definition editImage_catch :: "failure \<Rightarrow> failure" where
  "editImage_catch e =
     (case e of
        McpError c m \<Rightarrow> McpError c m
      | Error m \<Rightarrow> McpError InternalError (''Failed to edit image: '' @ m))"

definition editImage ::
  "runtime \<Rightarrow> edit_args \<Rightarrow> NanoBananaMCP \<times> world
    \<Rightarrow> (failure + CallToolResult) \<times> NanoBananaMCP \<times> world" where
  "editImage rt args st =
     (case st of (s, w) \<Rightarrow>
        if \<not> ensureConfigured s then (Inl not_configured_error, s, w)
        else case resolveModel (edit_model args) of
          Inl e \<Rightarrow> (Inl e, s, w)
        | Inr resolvedModel \<Rightarrow>
            (case validateImagePath rt w (edit_imagePath args) of
               Inl e \<Rightarrow> (Inl e, s, w)
             | Inr u \<Rightarrow>
                 (case fs_readFile w (edit_imagePath args) of
                    Inl m \<Rightarrow> (Inl (editImage_catch (Error m)), s, w)
                  | Inr imageBuffer \<Rightarrow>
                      (let imageParts0 =
                             [ImagePart (b64encode rt imageBuffer)
                                (getMimeType rt (edit_imagePath args))];
                           loaded =
                             (case edit_referenceImages args of
                                None \<Rightarrow> (imageParts0, [])
                              | Some refs \<Rightarrow>
                                  if length refs > 0
                                  then editImage_loop rt w refs (imageParts0, [])
                                  else (imageParts0, []));
                           imageParts = fst loaded @ [TextPart (edit_prompt args)];
                           warnings = snd loaded
                       in case generateContent (genAI s) resolvedModel (Parts imageParts) w of
                            (Inl e, w1) \<Rightarrow> (Inl (editImage_catch e), s, w1)
                          | (Inr resp, w1) \<Rightarrow>
                              (case buildImageResponse rt resp ''edited'' (edit_prompt args)
                                      warnings (s, w1) of
                                 (Inl e, st1) \<Rightarrow> (Inl (editImage_catch e), st1)
                               | (Inr r, st1) \<Rightarrow> (Inr r, st1))))))"

definition getConfigurationStatus :: "NanoBananaMCP \<Rightarrow> CallToolResult" where
  "getConfigurationStatus s =
     (let isConfigured = (config s \<noteq> None \<and> genAI s \<noteq> None)
      in if isConfigured
         then [TextItem
                (''Gemini API token is configured and ready to use''
                 @ (case configSource s of
                      environment \<Rightarrow>
                        nl @ ''Source: Environment variable (GEMINI_API_KEY)''
                        @ nl @ ''This is the most secure configuration method.''
                    | config_file \<Rightarrow>
                        nl @ ''Source: Local configuration file (.nano-banana-config.json)''
                        @ nl @ ''Consider using environment variables for better security.''
                    | not_configured \<Rightarrow> []))]
         else [TextItem
                (''Gemini API token is not configured''
                 @ nl @ nl @ ''Configuration options (in priority order):''
                 @ nl @ ''1. MCP client environment variables (Recommended)''
                 @ nl @ ''2. System environment variable: GEMINI_API_KEY''
                 @ nl @ ''3. Use configure_gemini_token tool''
                 @ nl @ nl @ ''For the most secure setup, add this to your MCP configuration:''
                 @ nl @ dq @ ''env'' @ dq @ '': { '' @ dq @ ''GEMINI_API_KEY'' @ dq @ '': ''
                 @ dq @ ''your-api-key-here'' @ dq @ '' }'')])"

definition no_prior_image_error :: failure where
  "no_prior_image_error =
     McpError InvalidRequest ''No previous image found. Please generate or edit an image first.''"

definition stale_prior_image_error :: "string \<Rightarrow> failure" where
  "stale_prior_image_error p =
     McpError InvalidRequest
       (''Last image file not found at: '' @ p @ ''. Please generate a new image first.'')"

definition continueEditing ::
  "runtime \<Rightarrow> continue_args \<Rightarrow> NanoBananaMCP \<times> world
    \<Rightarrow> (failure + CallToolResult) \<times> NanoBananaMCP \<times> world" where
  "continueEditing rt args st =
     (case st of (s, w) \<Rightarrow>
        if \<not> ensureConfigured s then (Inl not_configured_error, s, w)
        else if \<not> truthy (lastImagePath s) then (Inl no_prior_image_error, s, w)
        else if \<not> fs_access w (the (lastImagePath s))
        then (Inl (stale_prior_image_error (the (lastImagePath s))), s, w)
        else editImage rt
               \<lparr>edit_imagePath = the (lastImagePath s), edit_prompt = cont_prompt args,
                edit_referenceImages = cont_referenceImages args, edit_model = cont_model args\<rparr>
               (s, w))"

definition getLastImageInfo :: "NanoBananaMCP \<Rightarrow> world \<Rightarrow> CallToolResult" where
  "getLastImageInfo s w =
     (if \<not> truthy (lastImagePath s)
      then [TextItem (''No previous image found.'' @ nl @ nl
                      @ ''Please generate or edit an image first.'')]
      else let p = the (lastImagePath s)
           in case (if fs_access w p then fs_stat w p else None) of
                Some sz \<Rightarrow>
                  [TextItem (''Last Image Information:'' @ nl @ nl @ ''Path: '' @ p
                     @ nl @ ''File Size: '' @ show_nat (round_div sz 1024) @ '' KB''
                     @ nl @ ''Last Modified: '' @ mtime_text w p
                     @ nl @ nl @ ''Use continue_editing to make further changes.'')]
              | None \<Rightarrow>
                  [TextItem (''Last Image Information:'' @ nl @ nl @ ''Path: '' @ p
                     @ nl @ ''Status: File not found''
                     @ nl @ nl @ ''The image file may have been moved or deleted. ''
                     @ ''Please generate a new image.'')])"

section \<open>The request handler\<close>

datatype tool_call =
    configure_gemini_token string
  | generate_image generate_args
  | edit_image edit_args
  | get_configuration_status
  | continue_editing continue_args
  | get_last_image_info
  | unknown_tool string

definition callTool ::
  "runtime \<Rightarrow> tool_call \<Rightarrow> NanoBananaMCP \<times> world
    \<Rightarrow> (failure + CallToolResult) \<times> NanoBananaMCP \<times> world" where
  "callTool rt call st =
     (case (case call of
              configure_gemini_token apiKey \<Rightarrow> configureGeminiToken rt apiKey st
            | generate_image args \<Rightarrow> generateImage rt args st
            | edit_image args \<Rightarrow> editImage rt args st
            | get_configuration_status \<Rightarrow> (Inr (getConfigurationStatus (fst st)), st)
            | continue_editing args \<Rightarrow> continueEditing rt args st
            | get_last_image_info \<Rightarrow> (Inr (getLastImageInfo (fst st) (snd st)), st)
            | unknown_tool name \<Rightarrow>
                (Inl (McpError MethodNotFound (''Unknown tool: '' @ name)), st)) of
        (Inl (Error m), st1) \<Rightarrow>
          (Inl (McpError InternalError (''Tool execution failed: '' @ m)), st1)
      | (r, st1) \<Rightarrow> (r, st1))"

section \<open>Notions used to state the properties\<close>

text \<open>The narrative text of a part sequence: the truthy texts of the parts, in order.\<close>

definition texts :: "resp_part list \<Rightarrow> string" where
  "texts ps = concat (map (\<lambda>p. if truthy (part_text p) then the (part_text p) else []) ps)"

text \<open>The image-bearing parts of a part sequence, in order.\<close>

definition image_parts :: "resp_part list \<Rightarrow> resp_part list" where
  "image_parts ps = filter (\<lambda>p. image_data p \<noteq> None) ps"

text \<open>The path \<open>saveImage\<close> writes when the clock and the random source are read for the
  \<open>k\<close>-th time, and the paths of \<open>n\<close> saves in a row from the \<open>k\<close>-th reading on.\<close>

definition artifact_path :: "runtime \<Rightarrow> string \<Rightarrow> string \<Rightarrow> world \<Rightarrow> nat \<Rightarrow> string" where
  "artifact_path rt imagesDir prefix w k =
     path_join rt
       [imagesDir,
        prefix @ ''-''
        @ map (\<lambda>c. if c = CHR '':'' \<or> c = CHR ''.'' then CHR ''-'' else c) (now_iso w k)
        @ ''-'' @ random_id w k @ ''.png'']"

definition artifact_paths ::
  "runtime \<Rightarrow> string \<Rightarrow> string \<Rightarrow> world \<Rightarrow> nat \<Rightarrow> nat \<Rightarrow> string list" where
  "artifact_paths rt imagesDir prefix w k n =
     map (artifact_path rt imagesDir prefix w) [k ..< k + n]"

text \<open>The files after a sequence of successful writes.\<close>

definition store ::
  "(string \<Rightarrow> fs_file option) \<Rightarrow> (string \<times> string) list \<Rightarrow> (string \<Rightarrow> fs_file option)" where
  "store f ws = fold (\<lambda>pd g. g(fst pd \<mapsto> \<lparr>fsize = length (snd pd), fbytes = Inr (snd pd)\<rparr>)) ws f"

text \<open>What one reference image gives on its own: the reason it is skipped (the message of
  the validation error or of the failed read), or its request part.\<close>

definition ref_load :: "runtime \<Rightarrow> world \<Rightarrow> string \<Rightarrow> string + ContentPart" where
  "ref_load rt w p =
     (case validateImagePath rt w p of
        Inl e \<Rightarrow> Inl (message rt e)
      | Inr u \<Rightarrow>
          (case fs_readFile w p of
             Inl m \<Rightarrow> Inl m
           | Inr buf \<Rightarrow> Inr (ImagePart (b64encode rt buf) (getMimeType rt p))))"

text \<open>The parts of the references that load, and one warning for each that does not, both
  in input order.\<close>

definition loaded_refs :: "runtime \<Rightarrow> world \<Rightarrow> string list \<Rightarrow> ContentPart list" where
  "loaded_refs rt w refs =
     List.map_filter (\<lambda>p. case ref_load rt w p of Inl r \<Rightarrow> None | Inr part \<Rightarrow> Some part) refs"

definition ref_warnings :: "runtime \<Rightarrow> world \<Rightarrow> string list \<Rightarrow> string list" where
  "ref_warnings rt w refs =
     List.map_filter
       (\<lambda>p. case ref_load rt w p of
              Inl r \<Rightarrow> Some (''Skipped reference image '' @ dq @ p @ dq @ '': '' @ r)
            | Inr part \<Rightarrow> None) refs"

text \<open>The request of an edit call: the primary image first, the loaded references next, the
  prompt last.\<close>

definition edit_request ::
  "runtime \<Rightarrow> world \<Rightarrow> string \<Rightarrow> string \<Rightarrow> edit_args \<Rightarrow> string \<Rightarrow> gen_request" where
  "edit_request rt w k m args buf =
     \<lparr>req_apiKey = k, req_model = m,
      req_contents =
        Parts (ImagePart (b64encode rt buf) (getMimeType rt (edit_imagePath args))
               # loaded_refs rt w (case edit_referenceImages args of None \<Rightarrow> [] | Some rs \<Rightarrow> rs)
               @ [TextPart (edit_prompt args)])\<rparr>"

text \<open>The config record as startup finds it: \<open>None\<close> when the file is absent or unreadable,
  is not JSON, or fails the schema.\<close>

definition config_record :: "runtime \<Rightarrow> world \<Rightarrow> Config option" where
  "config_record rt w =
     (case fs_readFile w (getConfigPath rt) of
        Inl m \<Rightarrow> None
      | Inr configData \<Rightarrow>
          (case JSON_parse rt configData of
             None \<Rightarrow> None
           | Some parsedConfig \<Rightarrow> ConfigSchema_parse parsedConfig))"

text \<open>The frame of a step from \<open>(s, w)\<close> to \<open>(s', w')\<close>: of the server only \<open>lastImagePath\<close>
  may differ, the write log grows, the server is untouched unless a file was written, and
  no remote call is made.\<close>

definition artifact_frame :: "NanoBananaMCP \<times> world \<Rightarrow> NanoBananaMCP \<times> world \<Rightarrow> bool" where
  "artifact_frame st st' =
     (fst st' = (fst st)\<lparr>lastImagePath := lastImagePath (fst st')\<rparr>
      \<and> take (length (write_log (snd st))) (write_log (snd st')) = write_log (snd st)
      \<and> (write_log (snd st') = write_log (snd st) \<longrightarrow> fst st' = fst st)
      \<and> remote_log (snd st') = remote_log (snd st))"

text \<open>What a whole call may change of the server and when.\<close>

definition call_frame :: "NanoBananaMCP \<times> world \<Rightarrow> NanoBananaMCP \<times> world \<Rightarrow> bool" where
  "call_frame st st' =
     (fst st' = (fst st)\<lparr>lastImagePath := lastImagePath (fst st')\<rparr>
      \<and> (write_log (snd st') = write_log (snd st) \<longrightarrow> fst st' = fst st))"

text \<open>The calls of the configure tool.\<close>

fun is_configure :: "tool_call \<Rightarrow> bool" where
  "is_configure (configure_gemini_token k) = True"
| "is_configure call = False"

section \<open>A concrete runtime and world\<close>

text \<open>The extension of a path whose last segment is not empty and not \<open>..\<close>, as
  \<open>path.extname\<close> gives it: from the last dot of the last segment, empty when there is no
  dot or the segment starts with its only dot.\<close>

definition demo_extname :: "string \<Rightarrow> string" where
  "demo_extname p =
     (let seg = rev (takeWhile (\<lambda>c. c \<noteq> CHR ''/'') (rev p));
          e = rev (takeWhile (\<lambda>c. c \<noteq> CHR ''.'') (rev seg))
      in if length seg \<le> length e + 1 then [] else CHR ''.'' # e)"

definition demo_config_text :: "string \<Rightarrow> string" where
  "demo_config_text k =
     ''{'' @ nl @ ''  '' @ dq @ ''geminiApiKey'' @ dq @ '': '' @ dq @ k @ dq @ nl @ ''}''"

text \<open>The JSON-RPC number of an error code, which the SDK puts into the message of an
  \<open>McpError\<close>: \<open>MCP error <number>: <message>\<close>.\<close>

definition jsonrpc_code :: "ErrorCode \<Rightarrow> string" where
  "jsonrpc_code c =
     (case c of
        InvalidParams \<Rightarrow> ''-32602''
      | InvalidRequest \<Rightarrow> ''-32600''
      | InternalError \<Rightarrow> ''-32603''
      | MethodNotFound \<Rightarrow> ''-32601'')"

text \<open>A Linux process in \<open>/home/u/proj\<close>, given absolute normalised paths (which
  \<open>path.resolve\<close> returns as they are); the codec is a stand-in that tags the bytes.\<close>

definition demo_rt :: runtime where
  "demo_rt =
     \<lparr>path_resolve = (\<lambda>p. p),
      path_extname = demo_extname,
      path_join = join ''/'',
      b64encode = (\<lambda>b. ''b64:'' @ b),
      b64decode = (\<lambda>d. drop 4 d),
      JSON_parse =
        (\<lambda>t. if t = demo_config_text ''FILEKEY''
             then Some (JObject [(''geminiApiKey'', JString ''FILEKEY'')]) else None),
      JSON_stringify =
        (\<lambda>j. case j of JObject [(k, JString v)] \<Rightarrow> demo_config_text v | _ \<Rightarrow> ''null''),
      mcp_message = (\<lambda>c m. ''MCP error '' @ jsonrpc_code c @ '': '' @ m),
      os_platform = ''linux'',
      process_cwd = ''/home/u/proj'',
      os_homedir = ''/home/u'',
      env_GEMINI_API_KEY = None\<rparr>"

definition text_part :: "string \<Rightarrow> resp_part" where
  "text_part t = \<lparr>part_text = Some t, part_inlineData = None\<rparr>"

definition image_part :: "string \<Rightarrow> string \<Rightarrow> resp_part" where
  "image_part d m =
     \<lparr>part_text = None, part_inlineData = Some \<lparr>inl_data = Some d, inl_mimeType = Some m\<rparr>\<rparr>"

definition response_of :: "resp_part list list \<Rightarrow> response" where
  "response_of pss =
     \<lparr>candidates = Some (map (\<lambda>ps. \<lparr>cand_content = Some \<lparr>content_parts = Some ps\<rparr>\<rparr>) pss)\<rparr>"

definition demo_files :: "(string \<times> fs_file) list" where
  "demo_files =
     [(''/img/a.PNG'', \<lparr>fsize = 20971520, fbytes = Inr ''AAA''\<rparr>),
      (''/img/big.jpg'', \<lparr>fsize = 20971521, fbytes = Inr ''BBB''\<rparr>),
      (''/img/ref.gif'', \<lparr>fsize = 3, fbytes = Inr ''RRR''\<rparr>),
      (''/img/locked.webp'', \<lparr>fsize = 3, fbytes = Inl ''EACCES: permission denied''\<rparr>),
      (''/img/notes.svg'', \<lparr>fsize = 3, fbytes = Inr ''SSS''\<rparr>)]"

definition demo_world :: world where
  "demo_world =
     \<lparr>files = map_of demo_files,
      mkdir_error = (\<lambda>p. None),
      write_error = (\<lambda>p. None),
      enoent = (\<lambda>p. ''ENOENT: no such file or directory, open '' @ p),
      mtime_text = (\<lambda>p. ''1/1/2026, 12:00:00 AM''),
      now_iso = (\<lambda>n. ''2026-01-01T00:00:0'' @ show_nat n @ ''.000Z''),
      random_id = (\<lambda>n. ''k3x9q'' @ show_nat n),
      ticks = 0,
      provider = (\<lambda>req. Inr (response_of [[text_part ''A banana.'']])),
      remote_log = [],
      write_log = []\<rparr>"

definition demo_server :: NanoBananaMCP where
  "demo_server =
     \<lparr>config = Some \<lparr>geminiApiKey = ''ENVKEY''\<rparr>, genAI = Some ''ENVKEY'',
      lastImagePath = None, configSource = environment\<rparr>"

definition demo_response :: response where
  "demo_response =
     response_of
       [[text_part ''A '', image_part ''b64:IMG1'' ''image/webp'', text_part ''banana.'',
         image_part ''b64:IMG2'' []],
        [text_part ''ignored'', image_part ''b64:IMG3'' ''image/png'']]"

definition demo_edit_args :: edit_args where
  "demo_edit_args =
     \<lparr>edit_imagePath = ''/img/a.PNG'', edit_prompt = ''add a hat'',
      edit_referenceImages =
        Some [''/img/none.png'', ''/img/big.jpg'', ''/img/ref.gif'', ''/img/locked.webp''],
      edit_model = None\<rparr>"

definition demo_world_cfg :: world where
  "demo_world_cfg =
     demo_world\<lparr>files := (files demo_world)
       (''/home/u/.nano-banana-config.json'' \<mapsto>
          \<lparr>fsize = 32, fbytes = Inr (demo_config_text ''FILEKEY'')\<rparr>)\<rparr>"

definition demo_rt_env :: runtime where
  "demo_rt_env = demo_rt\<lparr>env_GEMINI_API_KEY := Some ''ENVKEY''\<rparr>"

definition demo_continue_args :: continue_args where
  "demo_continue_args =
     \<lparr>cont_prompt = ''make it blue'', cont_referenceImages = None, cont_model = None\<rparr>"

definition demo_generate_args :: generate_args where
  "demo_generate_args = \<lparr>gen_prompt = ''a banana'', gen_model = None\<rparr>"

text \<open>A world whose files cannot be written, and one whose provider answers with two images
  and where the write of the second image fails.\<close>

definition demo_world_readonly :: world where
  "demo_world_readonly = demo_world\<lparr>write_error := (\<lambda>p. Some ''EACCES: permission denied'')\<rparr>"

definition demo_world_full :: world where
  "demo_world_full =
     demo_world
       \<lparr>provider := (\<lambda>req. Inr demo_response),
        write_error :=
          (\<lambda>p. if p = ''/home/u/proj/generated_imgs/generated-2026-01-01T00-00-01-000Z-k3x9q1.png''
               then Some ''ENOSPC: no space left on device'' else None)\<rparr>"

text \<open>A world whose provider fails.\<close>

definition demo_world_down :: world where
  "demo_world_down = demo_world\<lparr>provider := (\<lambda>req. Inl ''429 quota exceeded'')\<rparr>"

text \<open>A world whose images directory cannot be made, and one whose clock and random source
  give the same reading twice while the provider answers with two images.\<close>

definition demo_world_nodir :: world where
  "demo_world_nodir =
     demo_world\<lparr>mkdir_error := (\<lambda>p. Some ''EACCES: permission denied, mkdir'')\<rparr>"

definition demo_world_sametick :: world where
  "demo_world_sametick =
     demo_world
       \<lparr>provider := (\<lambda>req. Inr demo_response),
        now_iso := (\<lambda>n. ''2026-01-01T00:00:00.000Z''),
        random_id := (\<lambda>n. ''k3x9q0'')\<rparr>"

section \<open>Evaluation of the concrete runtime and world\<close>

lemmas demo_eval =
  demo_rt_def demo_world_def demo_files_def demo_extname_def toLowerCase_def lower_char_def
  ALLOWED_IMAGE_EXTENSIONS_def

section \<open>The input validator\<close>

text \<open>C4: for every input path the validator resolves the path, lower-cases the extension
  of the resolved path and rejects with \<open>InvalidParams\<close> when it is not one of \<open>.jpg\<close>,
  \<open>.jpeg\<close>, \<open>.png\<close>, \<open>.webp\<close>, \<open>.gif\<close>, whatever the file system holds; with an allowed
  extension it rejects with the not-found message when the resolved path has no file; with a
  file it accepts a size of at most 20971520 bytes and rejects 20971521 bytes or more with
  \<open>InvalidParams\<close>.\<close>

theorem validateImagePath_order:
  assumes "ext = toLowerCase (path_extname rt (path_resolve rt p))"
  shows "(ext \<notin> set ALLOWED_IMAGE_EXTENSIONS \<longrightarrow>
            validateImagePath rt w p =
              Inl (McpError InvalidParams
                (''Unsupported image format '' @ dq @ ext @ dq
                  @ ''. Allowed: .jpg, .jpeg, .png, .webp, .gif'')))
       \<and> (ext \<in> set ALLOWED_IMAGE_EXTENSIONS \<and> files w (path_resolve rt p) = None \<longrightarrow>
            validateImagePath rt w p =
              Inl (McpError InvalidParams (''Image file not found: '' @ p)))
       \<and> (ext \<in> set ALLOWED_IMAGE_EXTENSIONS \<and> files w (path_resolve rt p) = Some f
            \<and> fsize f \<le> 20971520 \<longrightarrow> validateImagePath rt w p = Inr ())
       \<and> (ext \<in> set ALLOWED_IMAGE_EXTENSIONS \<and> files w (path_resolve rt p) = Some f
            \<and> 20971521 \<le> fsize f \<longrightarrow>
            validateImagePath rt w p =
              Inl (McpError InvalidParams
                (''Image file too large ('' @ show_nat (round_div (fsize f) 1048576)
                  @ ''MB). Maximum: 20MB'')))"
  using assms
  by (simp add: validateImagePath_def fs_stat_def MAX_IMAGE_SIZE_BYTES_def Let_def
      ALLOWED_IMAGE_EXTENSIONS_def show_nat.simps digit_def)

theorem validateImagePath_order_witness:
  "validateImagePath demo_rt demo_world ''/img/a.PNG'' = Inr ()
   \<and> validateImagePath demo_rt demo_world ''/img/big.jpg'' =
       Inl (McpError InvalidParams ''Image file too large (20MB). Maximum: 20MB'')
   \<and> validateImagePath demo_rt demo_world ''/img/notes.svg'' =
       Inl (McpError InvalidParams
         (''Unsupported image format '' @ dq @ ''.svg'' @ dq
           @ ''. Allowed: .jpg, .jpeg, .png, .webp, .gif''))
   \<and> validateImagePath demo_rt demo_world ''/img/none.png'' =
       Inl (McpError InvalidParams ''Image file not found: /img/none.png'')"
  using
    validateImagePath_order [of "''.png''" demo_rt "''/img/a.PNG''" demo_world
      "\<lparr>fsize = 20971520, fbytes = Inr ''AAA''\<rparr>"]
    validateImagePath_order [of "''.jpg''" demo_rt "''/img/big.jpg''" demo_world
      "\<lparr>fsize = 20971521, fbytes = Inr ''BBB''\<rparr>"]
    validateImagePath_order [of "''.svg''" demo_rt "''/img/notes.svg''" demo_world]
    validateImagePath_order [of "''.png''" demo_rt "''/img/none.png''" demo_world]
  by (simp add: demo_eval round_div_def show_nat.simps digit_def)

section \<open>Response reassembly\<close>

lemma artifact_path_frame [simp]:
  "artifact_path rt d pre (w\<lparr>ticks := a\<rparr>) = artifact_path rt d pre w"
  "artifact_path rt d pre (w\<lparr>files := b\<rparr>) = artifact_path rt d pre w"
  "artifact_path rt d pre (w\<lparr>write_log := c\<rparr>) = artifact_path rt d pre w"
  "artifact_path rt d pre (w\<lparr>remote_log := e\<rparr>) = artifact_path rt d pre w"
  by (simp_all add: artifact_path_def fun_eq_iff)

lemma artifact_paths_frame [simp]:
  "artifact_paths rt d pre (w\<lparr>ticks := a\<rparr>) = artifact_paths rt d pre w"
  "artifact_paths rt d pre (w\<lparr>files := b\<rparr>) = artifact_paths rt d pre w"
  "artifact_paths rt d pre (w\<lparr>write_log := c\<rparr>) = artifact_paths rt d pre w"
  "artifact_paths rt d pre (w\<lparr>remote_log := e\<rparr>) = artifact_paths rt d pre w"
  by (simp_all add: artifact_paths_def fun_eq_iff)

lemma artifact_paths_0 [simp]: "artifact_paths rt d pre w k 0 = []"
  by (simp add: artifact_paths_def)

lemma artifact_paths_Suc:
  "artifact_paths rt d pre w k (Suc n) =
     artifact_path rt d pre w k # artifact_paths rt d pre w (Suc k) n"
  by (simp add: artifact_paths_def upt_conv_Cons del: upt_Suc)

lemma length_artifact_paths [simp]: "length (artifact_paths rt d pre w k n) = n"
  by (simp add: artifact_paths_def)

lemma artifact_paths_eq_Nil [simp]: "(artifact_paths rt d pre w k n = []) = (n = 0)"
  by (auto simp add: artifact_paths_def)

lemma saveImage_ok:
  assumes "write_error w (artifact_path rt d pre w (ticks w)) = None"
  shows "saveImage rt d pre b w =
           (Inr \<lparr>saved_filePath = artifact_path rt d pre w (ticks w), saved_base64 = b,
                 saved_mimeType = ''image/png''\<rparr>,
            w\<lparr>ticks := Suc (ticks w),
              files := (files w)(artifact_path rt d pre w (ticks w) \<mapsto>
                         \<lparr>fsize = length (b64decode rt b), fbytes = Inr (b64decode rt b)\<rparr>),
              write_log := write_log w @ [(artifact_path rt d pre w (ticks w), b64decode rt b)]\<rparr>)"
  using assms by (simp add: saveImage_def fs_writeFile_def artifact_path_def Let_def)

lemma store_Cons:
  "store f ((p, d) # ws) = store (f(p \<mapsto> \<lparr>fsize = length d, fbytes = Inr d\<rparr>)) ws"
  by (simp add: store_def)

lemma store_Nil [simp]: "store f [] = f"
  by (simp add: store_def)

lemma loop_ok:
  assumes "\<forall>k\<in>{ticks w ..< ticks w + length (image_parts ps)}.
             write_error w (artifact_path rt d pre w k) = None"
  shows "buildImageResponse_loop rt d pre ps (t, sf, c) (s, w) =
           (Inr (t @ texts ps,
                 sf @ artifact_paths rt d pre w (ticks w) (length (image_parts ps)),
                 c @ map (\<lambda>p. ImageItem (the (image_data p)) (image_mime p)) (image_parts ps)),
            s\<lparr>lastImagePath :=
                 (if image_parts ps = [] then lastImagePath s
                  else Some (last (artifact_paths rt d pre w (ticks w) (length (image_parts ps)))))\<rparr>,
            w\<lparr>ticks := ticks w + length (image_parts ps),
              files := store (files w)
                 (zip (artifact_paths rt d pre w (ticks w) (length (image_parts ps)))
                      (map (\<lambda>p. b64decode rt (the (image_data p))) (image_parts ps))),
              write_log := write_log w @
                 zip (artifact_paths rt d pre w (ticks w) (length (image_parts ps)))
                     (map (\<lambda>p. b64decode rt (the (image_data p))) (image_parts ps))\<rparr>)"
  using assms
proof (induction ps arbitrary: t sf c s w)
  case Nil
  then show ?case by (simp add: texts_def image_parts_def)
next
  case (Cons p ps)
  show ?case
  proof (cases "image_data p")
    case None
    with Cons.prems have pre: "\<forall>k\<in>{ticks w ..< ticks w + length (image_parts ps)}.
             write_error w (artifact_path rt d pre w k) = None"
      by (simp add: image_parts_def)
    show ?thesis using None Cons.IH [OF pre]
      by (simp add: texts_def image_parts_def)
  next
    case (Some b)
    let ?p0 = "artifact_path rt d pre w (ticks w)"
    let ?w1 = "w\<lparr>ticks := Suc (ticks w),
              files := (files w)(?p0 \<mapsto>
                         \<lparr>fsize = length (b64decode rt b), fbytes = Inr (b64decode rt b)\<rparr>),
              write_log := write_log w @ [(?p0, b64decode rt b)]\<rparr>"
    let ?t1 = "if truthy (part_text p) then t @ the (part_text p) else t"
    from Some have ip: "image_parts (p # ps) = p # image_parts ps"
      by (simp add: image_parts_def)
    from Cons.prems ip have w0: "write_error w ?p0 = None"
      by simp
    from Cons.prems ip have pre: "\<forall>k\<in>{ticks ?w1 ..< ticks ?w1 + length (image_parts ps)}.
             write_error ?w1 (artifact_path rt d pre ?w1 k) = None"
      by simp
    have step: "buildImageResponse_loop rt d pre (p # ps) (t, sf, c) (s, w) =
        buildImageResponse_loop rt d pre ps
          (?t1, sf @ [?p0], c @ [ImageItem b (image_mime p)])
          (s\<lparr>lastImagePath := Some ?p0\<rparr>, ?w1)"
      using Some saveImage_ok [OF w0, of b] by simp
    have tx: "?t1 @ texts ps = t @ texts (p # ps)"
      by (simp add: texts_def)
    show ?thesis
      unfolding step Cons.IH [OF pre] ip
      by (simp add: tx [symmetric] artifact_paths_Suc store_Cons Some del: fun_upd_apply)
  qed
qed

lemma buildImageResponse_ok:
  assumes "mkdir_error w (getImagesDirectory rt) = None"
    and "\<forall>k\<in>{ticks w ..< ticks w + length (image_parts (first_parts resp))}.
           write_error w (artifact_path rt (getImagesDirectory rt) prefix w k) = None"
  shows "buildImageResponse rt resp prefix promptText warnings (s, w) =
           (Inr (TextItem (statusText prefix promptText (texts (first_parts resp)) warnings
                   (artifact_paths rt (getImagesDirectory rt) prefix w (ticks w)
                      (length (image_parts (first_parts resp)))))
                 # map (\<lambda>p. ImageItem (the (image_data p)) (image_mime p))
                     (image_parts (first_parts resp))),
            s\<lparr>lastImagePath :=
                 (if image_parts (first_parts resp) = [] then lastImagePath s
                  else Some (last (artifact_paths rt (getImagesDirectory rt) prefix w (ticks w)
                                     (length (image_parts (first_parts resp))))))\<rparr>,
            w\<lparr>ticks := ticks w + length (image_parts (first_parts resp)),
              files := store (files w)
                 (zip (artifact_paths rt (getImagesDirectory rt) prefix w (ticks w)
                         (length (image_parts (first_parts resp))))
                      (map (\<lambda>p. b64decode rt (the (image_data p)))
                         (image_parts (first_parts resp)))),
              write_log := write_log w @
                 zip (artifact_paths rt (getImagesDirectory rt) prefix w (ticks w)
                        (length (image_parts (first_parts resp))))
                     (map (\<lambda>p. b64decode rt (the (image_data p)))
                        (image_parts (first_parts resp)))\<rparr>)"
  using assms(1) by (simp add: buildImageResponse_def Let_def loop_ok [OF assms(2)])

lemma buildImageResponse_no_image:
  assumes "mkdir_error w (getImagesDirectory rt) = None"
    and "image_parts (first_parts resp) = []"
  shows "buildImageResponse rt resp prefix promptText warnings (s, w) =
           (Inr [TextItem (statusText prefix promptText (texts (first_parts resp)) warnings [])],
            s, w)"
  using buildImageResponse_ok [OF assms(1), of resp prefix promptText warnings s] assms(2)
  by simp

section \<open>Editing with reference images\<close>

lemma editImage_loop_eq:
  "editImage_loop rt w refs (parts, warns) =
     (parts @ loaded_refs rt w refs, warns @ ref_warnings rt w refs)"
proof (induction refs arbitrary: parts warns)
  case Nil
  show ?case by (simp add: loaded_refs_def ref_warnings_def map_filter_simps)
next
  case (Cons p refs)
  show ?case
    by (simp add: Cons.IH loaded_refs_def ref_warnings_def map_filter_simps ref_load_def
        split: sum.splits)
qed

lemma generateContent_Some:
  "generateContent (Some k) m c w =
     (case provider w \<lparr>req_apiKey = k, req_model = m, req_contents = c\<rparr> of
        Inl msg \<Rightarrow> Inl (Error msg) | Inr r \<Rightarrow> Inr r,
      w\<lparr>remote_log := remote_log w @ [\<lparr>req_apiKey = k, req_model = m, req_contents = c\<rparr>]\<rparr>)"
  by (simp add: generateContent_def Let_def)

lemma editImage_ok:
  assumes "ensureConfigured s"
    and "resolveModel (edit_model args) = Inr m"
    and "validateImagePath rt w (edit_imagePath args) = Inr ()"
    and "fs_readFile w (edit_imagePath args) = Inr buf"
  shows "editImage rt args (s, w) =
           (case provider w (edit_request rt w (the (genAI s)) m args buf) of
              Inl msg \<Rightarrow>
                (Inl (McpError InternalError (''Failed to edit image: '' @ msg)), s,
                 w\<lparr>remote_log :=
                      remote_log w @ [edit_request rt w (the (genAI s)) m args buf]\<rparr>)
            | Inr resp \<Rightarrow>
                (case buildImageResponse rt resp ''edited'' (edit_prompt args)
                        (ref_warnings rt w
                           (case edit_referenceImages args of None \<Rightarrow> [] | Some rs \<Rightarrow> rs))
                        (s, w\<lparr>remote_log :=
                                 remote_log w @ [edit_request rt w (the (genAI s)) m args buf]\<rparr>) of
                   (Inl e, st1) \<Rightarrow> (Inl (editImage_catch e), st1)
                 | (Inr r, st1) \<Rightarrow> (Inr r, st1)))"
proof -
  from assms(1) obtain k where k: "genAI s = Some k"
    by (auto simp add: ensureConfigured_def)
  show ?thesis
    using assms
    by (cases "edit_referenceImages args")
       (auto simp add: editImage_def Let_def k generateContent_Some editImage_loop_eq
          edit_request_def editImage_catch_def loaded_refs_def ref_warnings_def
          map_filter_simps split: sum.splits prod.splits)
qed

lemma demo_validate:
  "validateImagePath demo_rt demo_world ''/img/a.PNG'' = Inr ()"
  "validateImagePath demo_rt demo_world ''/img/ref.gif'' = Inr ()"
  "validateImagePath demo_rt demo_world ''/img/locked.webp'' = Inr ()"
  "validateImagePath demo_rt demo_world ''/img/none.png'' =
     Inl (McpError InvalidParams ''Image file not found: /img/none.png'')"
  "validateImagePath demo_rt demo_world ''/img/big.jpg'' =
     Inl (McpError InvalidParams ''Image file too large (20MB). Maximum: 20MB'')"
  by (simp_all add: validateImagePath_def demo_eval fs_stat_def MAX_IMAGE_SIZE_BYTES_def
      round_div_def show_nat.simps digit_def)

lemma demo_read:
  "fs_readFile demo_world ''/img/a.PNG'' = Inr ''AAA''"
  "fs_readFile demo_world ''/img/ref.gif'' = Inr ''RRR''"
  "fs_readFile demo_world ''/img/locked.webp'' = Inl ''EACCES: permission denied''"
  by (simp_all add: fs_readFile_def demo_world_def demo_files_def)

lemma demo_mime:
  "getMimeType demo_rt ''/img/a.PNG'' = ''image/png''"
  "getMimeType demo_rt ''/img/ref.gif'' = ''image/gif''"
  by (simp_all add: getMimeType_def demo_eval)

lemma demo_ref_load:
  "ref_load demo_rt demo_world ''/img/none.png'' =
     Inl ''MCP error -32602: Image file not found: /img/none.png''"
  "ref_load demo_rt demo_world ''/img/big.jpg'' =
     Inl ''MCP error -32602: Image file too large (20MB). Maximum: 20MB''"
  "ref_load demo_rt demo_world ''/img/ref.gif'' = Inr (ImagePart ''b64:RRR'' ''image/gif'')"
  "ref_load demo_rt demo_world ''/img/locked.webp'' = Inl ''EACCES: permission denied''"
  by (simp_all add: ref_load_def demo_validate demo_read demo_mime message_def)
     (simp_all add: demo_rt_def jsonrpc_code_def)

lemma demo_refs:
  "loaded_refs demo_rt demo_world
     [''/img/none.png'', ''/img/big.jpg'', ''/img/ref.gif'', ''/img/locked.webp''] =
     [ImagePart ''b64:RRR'' ''image/gif'']"
  "ref_warnings demo_rt demo_world
     [''/img/none.png'', ''/img/big.jpg'', ''/img/ref.gif'', ''/img/locked.webp''] =
     [''Skipped reference image '' @ dq @ ''/img/none.png'' @ dq
        @ '': MCP error -32602: Image file not found: /img/none.png'',
      ''Skipped reference image '' @ dq @ ''/img/big.jpg'' @ dq
        @ '': MCP error -32602: Image file too large (20MB). Maximum: 20MB'',
      ''Skipped reference image '' @ dq @ ''/img/locked.webp'' @ dq
        @ '': EACCES: permission denied'']"
  by (simp_all add: loaded_refs_def ref_warnings_def map_filter_simps demo_ref_load)

lemma demo_text_only:
  "first_parts (response_of [[text_part t]]) = [text_part t]"
  "image_parts [text_part t] = []"
  "texts [text_part ''A banana.''] = ''A banana.''"
  by (simp_all add: first_parts_def response_of_def image_parts_def image_data_def
      text_part_def texts_def truthy_def)

section \<open>Credential resolution at startup\<close>

lemma loadConfig_file_eq:
  "loadConfig_file rt w s =
     (case config_record rt w of
        None \<Rightarrow> s\<lparr>configSource := not_configured\<rparr>
      | Some c \<Rightarrow> s\<lparr>config := Some c, genAI := Some (geminiApiKey c), configSource := config_file\<rparr>)"
  by (simp add: loadConfig_file_def config_record_def split: sum.splits option.splits)

lemma ConfigSchema_parse_key:
  "ConfigSchema_parse (JObject [(''geminiApiKey'', JString k)]) =
     (if k = [] then None else Some \<lparr>geminiApiKey = k\<rparr>)"
  by (cases k) (simp_all add: ConfigSchema_parse_def)

text \<open>C3: at startup, a present and valid (non-empty) environment credential is selected
  with the label \<open>environment\<close> whatever the config record holds; with the environment
  variable absent or empty the config record decides: a readable record that passes the
  schema is selected with the label \<open>config_file\<close>, and otherwise the server is left
  unconfigured. So \<open>not_configured\<close> results exactly when the environment credential is
  absent or invalid and the config record is absent, unreadable or invalid as well.\<close>

theorem loadConfig_precedence:
  "(env_GEMINI_API_KEY rt = Some k \<and> k \<noteq> [] \<longrightarrow>
      loadConfig rt w s =
        s\<lparr>config := Some \<lparr>geminiApiKey = k\<rparr>, genAI := Some k, configSource := environment\<rparr>)
   \<and> (\<not> truthy (env_GEMINI_API_KEY rt) \<and> config_record rt w = Some c \<longrightarrow>
      loadConfig rt w s =
        s\<lparr>config := Some c, genAI := Some (geminiApiKey c), configSource := config_file\<rparr>)
   \<and> (\<not> truthy (env_GEMINI_API_KEY rt) \<and> config_record rt w = None \<longrightarrow>
      loadConfig rt w s = s\<lparr>configSource := not_configured\<rparr>)
   \<and> (configSource (loadConfig rt w s) = not_configured \<longleftrightarrow>
        \<not> truthy (env_GEMINI_API_KEY rt) \<and> config_record rt w = None)
   \<and> (ensureConfigured (loadConfig rt w initial_server) \<longleftrightarrow>
        configSource (loadConfig rt w initial_server) \<noteq> not_configured)"
  by (auto simp add: loadConfig_def loadConfig_file_eq ConfigSchema_parse_key truthy_def
      ensureConfigured_def initial_server_def split: option.splits)

lemma demo_config_path:
  "getConfigPath demo_rt = ''/home/u/.nano-banana-config.json''"
  "getConfigPath demo_rt_env = ''/home/u/.nano-banana-config.json''"
  by (simp_all add: getConfigPath_def demo_rt_def demo_rt_env_def CONFIG_FILE_NAME_def)

lemma demo_config_record:
  "config_record demo_rt demo_world_cfg = Some \<lparr>geminiApiKey = ''FILEKEY''\<rparr>"
  "config_record demo_rt_env demo_world_cfg = Some \<lparr>geminiApiKey = ''FILEKEY''\<rparr>"
  "config_record demo_rt demo_world = None"
  by (simp_all add: config_record_def demo_config_path fs_readFile_def demo_world_cfg_def
      demo_world_def demo_files_def)
     (simp_all add: demo_rt_def demo_rt_env_def ConfigSchema_parse_def)

theorem loadConfig_precedence_witness:
  "loadConfig demo_rt_env demo_world_cfg initial_server =
     initial_server\<lparr>config := Some \<lparr>geminiApiKey = ''ENVKEY''\<rparr>, genAI := Some ''ENVKEY'',
       configSource := environment\<rparr>
   \<and> loadConfig demo_rt demo_world_cfg initial_server =
     initial_server\<lparr>config := Some \<lparr>geminiApiKey = ''FILEKEY''\<rparr>, genAI := Some ''FILEKEY'',
       configSource := config_file\<rparr>
   \<and> loadConfig demo_rt demo_world initial_server = initial_server"
  using
    loadConfig_precedence [where rt = demo_rt_env and k = "''ENVKEY''" and w = demo_world_cfg
      and s = initial_server]
    loadConfig_precedence [where rt = demo_rt and w = demo_world_cfg
      and c = "\<lparr>geminiApiKey = ''FILEKEY''\<rparr>" and s = initial_server]
    loadConfig_precedence [where rt = demo_rt and w = demo_world and s = initial_server]
  by (simp add: demo_config_record truthy_def)
     (simp add: demo_rt_def demo_rt_env_def initial_server_def)

section \<open>What a call can change\<close>

lemma saveImage_cases:
  "saveImage rt d pre b w =
     (case write_error w (artifact_path rt d pre w (ticks w)) of
        Some m \<Rightarrow> (Inl (Error m), w\<lparr>ticks := Suc (ticks w)\<rparr>)
      | None \<Rightarrow>
          (Inr \<lparr>saved_filePath = artifact_path rt d pre w (ticks w), saved_base64 = b,
                saved_mimeType = ''image/png''\<rparr>,
           w\<lparr>ticks := Suc (ticks w),
             files := (files w)(artifact_path rt d pre w (ticks w) \<mapsto>
                        \<lparr>fsize = length (b64decode rt b), fbytes = Inr (b64decode rt b)\<rparr>),
             write_log := write_log w @ [(artifact_path rt d pre w (ticks w), b64decode rt b)]\<rparr>))"
  by (simp add: saveImage_def fs_writeFile_def artifact_path_def Let_def split: option.splits)

lemma loop_frame:
  "artifact_frame (s, w) (snd (buildImageResponse_loop rt d pre ps acc (s, w)))"
proof (induction ps arbitrary: acc s w)
  case Nil
  show ?case by (simp add: artifact_frame_def)
next
  case (Cons p ps)
  obtain t sf c where acc: "acc = (t, sf, c)"
    by (cases acc) auto
  show ?case
  proof (cases "image_data p")
    case None
    then show ?thesis using Cons.IH by (simp add: acc)
  next
    case (Some b)
    show ?thesis
    proof (cases "write_error w (artifact_path rt d pre w (ticks w))")
      case (Some m)
      then show ?thesis using \<open>image_data p = Some b\<close>
        by (simp add: acc saveImage_cases artifact_frame_def)
    next
      case None
      let ?p0 = "artifact_path rt d pre w (ticks w)"
      let ?w1 = "w\<lparr>ticks := Suc (ticks w),
             files := (files w)(?p0 \<mapsto>
                        \<lparr>fsize = length (b64decode rt b), fbytes = Inr (b64decode rt b)\<rparr>),
             write_log := write_log w @ [(?p0, b64decode rt b)]\<rparr>"
      let ?t1 = "if truthy (part_text p) then t @ the (part_text p) else t"
      have step: "buildImageResponse_loop rt d pre (p # ps) acc (s, w) =
          buildImageResponse_loop rt d pre ps
            (?t1, sf @ [?p0], c @ [ImageItem b (image_mime p)])
            (s\<lparr>lastImagePath := Some ?p0\<rparr>, ?w1)"
        using None \<open>image_data p = Some b\<close> by (simp add: acc saveImage_cases)
      have IH: "artifact_frame (s\<lparr>lastImagePath := Some ?p0\<rparr>, ?w1)
          (snd (buildImageResponse_loop rt d pre ps
            (?t1, sf @ [?p0], c @ [ImageItem b (image_mime p)])
            (s\<lparr>lastImagePath := Some ?p0\<rparr>, ?w1)))"
        by (rule Cons.IH)
      obtain r s' w' where res: "buildImageResponse_loop rt d pre ps
            (?t1, sf @ [?p0], c @ [ImageItem b (image_mime p)])
            (s\<lparr>lastImagePath := Some ?p0\<rparr>, ?w1) = (r, s', w')"
        by (cases "buildImageResponse_loop rt d pre ps
            (?t1, sf @ [?p0], c @ [ImageItem b (image_mime p)])
            (s\<lparr>lastImagePath := Some ?p0\<rparr>, ?w1)") auto
      from IH res have f:
          "s' = s\<lparr>lastImagePath := lastImagePath s'\<rparr>"
          "take (Suc (length (write_log w))) (write_log w') = write_log w @ [(?p0, b64decode rt b)]"
          "remote_log w' = remote_log w"
        by (simp_all add: artifact_frame_def)
      from f(2) have "take (length (write_log w)) (take (Suc (length (write_log w))) (write_log w'))
           = write_log w"
        by simp
      then have tk: "take (length (write_log w)) (write_log w') = write_log w"
        by (simp add: min_def)
      from f(2) have ne: "write_log w' \<noteq> write_log w"
        by auto
      show ?thesis
        unfolding step res using f tk ne
        by (simp add: artifact_frame_def)
    qed
  qed
qed


lemma buildImageResponse_frame:
  "artifact_frame (s, w) (snd (buildImageResponse rt resp pre pt ws (s, w)))"
proof (cases "mkdir_error w (getImagesDirectory rt)")
  case (Some m)
  then show ?thesis by (simp add: buildImageResponse_def artifact_frame_def)
next
  case None
  obtain r st1 where res:
    "buildImageResponse_loop rt (getImagesDirectory rt) pre (first_parts resp) ([], [], []) (s, w)
       = (r, st1)"
    by (cases "buildImageResponse_loop rt (getImagesDirectory rt) pre (first_parts resp)
                 ([], [], []) (s, w)") auto
  from loop_frame [of s w rt "getImagesDirectory rt" pre "first_parts resp" "([], [], [])"] res
  have "artifact_frame (s, w) st1" by simp
  then show ?thesis
    using None res by (cases r) (auto simp add: buildImageResponse_def Let_def)
qed

lemma generateImage_eq:
  assumes "ensureConfigured s" and "resolveModel (gen_model args) = Inr m"
  shows "generateImage rt args (s, w) =
     (case provider w \<lparr>req_apiKey = the (genAI s), req_model = m,
                        req_contents = PromptOnly (gen_prompt args)\<rparr> of
        Inl msg \<Rightarrow>
          (Inl (McpError InternalError (''Failed to generate image: '' @ msg)), s,
           w\<lparr>remote_log := remote_log w @
                [\<lparr>req_apiKey = the (genAI s), req_model = m,
                  req_contents = PromptOnly (gen_prompt args)\<rparr>]\<rparr>)
      | Inr resp \<Rightarrow>
          (case buildImageResponse rt resp ''generated'' (gen_prompt args) []
                  (s, w\<lparr>remote_log := remote_log w @
                         [\<lparr>req_apiKey = the (genAI s), req_model = m,
                           req_contents = PromptOnly (gen_prompt args)\<rparr>]\<rparr>) of
             (Inl e, st1) \<Rightarrow>
               (Inl (McpError InternalError (''Failed to generate image: '' @ message rt e)), st1)
           | (Inr r, st1) \<Rightarrow> (Inr r, st1)))"
proof -
  from assms(1) obtain k where k: "genAI s = Some k"
    by (auto simp add: ensureConfigured_def)
  show ?thesis
    using assms
    by (auto simp add: generateImage_def k generateContent_Some message_def
        split: sum.splits prod.splits)
qed

lemma artifact_frame_call:
  assumes "artifact_frame (s, w\<lparr>remote_log := l\<rparr>) st'"
  shows "call_frame (s, w) st'"
  using assms by (simp add: artifact_frame_def call_frame_def)

lemma generateImage_frame: "call_frame (s, w) (snd (generateImage rt args (s, w)))"
proof (cases "ensureConfigured s")
  case False
  then show ?thesis by (simp add: generateImage_def call_frame_def)
next
  case True
  show ?thesis
  proof (cases "resolveModel (gen_model args)")
    case (Inl e)
    then show ?thesis using True by (simp add: generateImage_def call_frame_def)
  next
    case (Inr m)
    let ?req = "\<lparr>req_apiKey = the (genAI s), req_model = m,
                  req_contents = PromptOnly (gen_prompt args)\<rparr>"
    show ?thesis
    proof (cases "provider w ?req")
      case (Inl msg)
      then show ?thesis
        by (simp add: generateImage_eq [OF True Inr] call_frame_def)
    next
      case (Inr resp)
      let ?w1 = "w\<lparr>remote_log := remote_log w @ [?req]\<rparr>"
      obtain r st1 where res:
        "buildImageResponse rt resp ''generated'' (gen_prompt args) [] (s, ?w1) = (r, st1)"
        by (cases "buildImageResponse rt resp ''generated'' (gen_prompt args) [] (s, ?w1)") auto
      from buildImageResponse_frame [of s ?w1 rt resp "''generated''" "gen_prompt args" "[]"] res
      have "call_frame (s, w) st1"
        by (simp add: artifact_frame_call)
      then show ?thesis
        using Inr res
        by (cases r) (simp_all add: generateImage_eq [OF True \<open>resolveModel (gen_model args) = Inr m\<close>])
    qed
  qed
qed

lemma editImage_early:
  "\<not> ensureConfigured s \<Longrightarrow> editImage rt args (s, w) = (Inl not_configured_error, s, w)"
  "ensureConfigured s \<Longrightarrow> resolveModel (edit_model args) = Inl e \<Longrightarrow>
     editImage rt args (s, w) = (Inl e, s, w)"
  "ensureConfigured s \<Longrightarrow> resolveModel (edit_model args) = Inr m \<Longrightarrow>
     validateImagePath rt w (edit_imagePath args) = Inl e \<Longrightarrow>
     editImage rt args (s, w) = (Inl e, s, w)"
  "ensureConfigured s \<Longrightarrow> resolveModel (edit_model args) = Inr m \<Longrightarrow>
     validateImagePath rt w (edit_imagePath args) = Inr () \<Longrightarrow>
     fs_readFile w (edit_imagePath args) = Inl msg \<Longrightarrow>
     editImage rt args (s, w) =
       (Inl (McpError InternalError (''Failed to edit image: '' @ msg)), s, w)"
  by (simp_all add: editImage_def editImage_catch_def)

lemma generateImage_early:
  "\<not> ensureConfigured s \<Longrightarrow> generateImage rt args (s, w) = (Inl not_configured_error, s, w)"
  "ensureConfigured s \<Longrightarrow> resolveModel (gen_model args) = Inl e \<Longrightarrow>
     generateImage rt args (s, w) = (Inl e, s, w)"
  by (simp_all add: generateImage_def)

lemma editImage_frame: "call_frame (s, w) (snd (editImage rt args (s, w)))"
proof (cases "ensureConfigured s")
  case False
  then show ?thesis by (simp add: editImage_early call_frame_def)
next
  case True
  show ?thesis
  proof (cases "resolveModel (edit_model args)")
    case (Inl e)
    then show ?thesis using True by (simp add: editImage_early call_frame_def)
  next
    case mdl: (Inr m)
    show ?thesis
    proof (cases "validateImagePath rt w (edit_imagePath args)")
      case (Inl e)
      then show ?thesis using True mdl by (simp add: editImage_early call_frame_def)
    next
      case val: (Inr u)
      show ?thesis
      proof (cases "fs_readFile w (edit_imagePath args)")
        case (Inl msg)
        then show ?thesis using True mdl val by (simp add: editImage_early call_frame_def)
      next
        case rd: (Inr buf)
        let ?req = "edit_request rt w (the (genAI s)) m args buf"
        let ?w1 = "w\<lparr>remote_log := remote_log w @ [?req]\<rparr>"
        let ?ws = "ref_warnings rt w
                     (case edit_referenceImages args of None \<Rightarrow> [] | Some rs \<Rightarrow> rs)"
        from val have val': "validateImagePath rt w (edit_imagePath args) = Inr ()"
          by simp
        note eq = editImage_ok [OF True mdl val' rd]
        show ?thesis
        proof (cases "provider w ?req")
          case (Inl msg)
          then show ?thesis by (simp add: eq call_frame_def)
        next
          case (Inr resp)
          obtain r st1 where res:
            "buildImageResponse rt resp ''edited'' (edit_prompt args) ?ws (s, ?w1) = (r, st1)"
            by (cases "buildImageResponse rt resp ''edited'' (edit_prompt args) ?ws (s, ?w1)")
               auto
          from buildImageResponse_frame [of s ?w1 rt resp "''edited''" "edit_prompt args" ?ws]
            res
          have "call_frame (s, w) st1"
            by (simp add: artifact_frame_call)
          then show ?thesis
            using Inr res by (cases r) (simp_all add: eq)
        qed
      qed
    qed
  qed
qed

lemma continueEditing_frame: "call_frame (s, w) (snd (continueEditing rt args (s, w)))"
  using editImage_frame [of s w rt]
  by (simp add: continueEditing_def call_frame_def)

section \<open>Continuing from the last image\<close>

lemma continueEditing_unconfigured:
  "\<not> ensureConfigured s \<Longrightarrow>
     continueEditing rt args (s, w) =
       (Inl (McpError InvalidRequest
              ''Gemini API token not configured. Use configure_gemini_token first.''), s, w)"
  by (simp add: continueEditing_def not_configured_error_def)

lemma prior_image_errors_distinct:
  "not_configured_error \<noteq> no_prior_image_error"
  "not_configured_error \<noteq> stale_prior_image_error p"
  "no_prior_image_error \<noteq> stale_prior_image_error p"
  by (simp_all add: not_configured_error_def no_prior_image_error_def
      stale_prior_image_error_def)

text \<open>C10: in \<open>continue_editing\<close> the credential check comes first: without an active
  credential the call fails with the not-configured error and changes nothing, whether the
  session holds no last image path or one whose file has vanished; that error is neither
  the no-prior-image error nor the stale-prior-image error.\<close>

theorem continueEditing_not_configured_first:
  assumes "\<not> ensureConfigured s"
  shows "continueEditing rt args (s, w) =
           (Inl (McpError InvalidRequest
                  ''Gemini API token not configured. Use configure_gemini_token first.''), s, w)
       \<and> McpError InvalidRequest
            ''Gemini API token not configured. Use configure_gemini_token first.''
          \<noteq> no_prior_image_error
       \<and> McpError InvalidRequest
            ''Gemini API token not configured. Use configure_gemini_token first.''
          \<noteq> stale_prior_image_error p"
  using continueEditing_unconfigured [OF assms] prior_image_errors_distinct
  by (simp add: not_configured_error_def)

theorem continueEditing_not_configured_first_witness:
  "continueEditing demo_rt demo_continue_args (initial_server, demo_world) =
     (Inl (McpError InvalidRequest
            ''Gemini API token not configured. Use configure_gemini_token first.''),
      initial_server, demo_world)
   \<and> continueEditing demo_rt demo_continue_args
       (initial_server\<lparr>lastImagePath := Some ''/img/gone.png''\<rparr>, demo_world) =
     (Inl (McpError InvalidRequest
            ''Gemini API token not configured. Use configure_gemini_token first.''),
      initial_server\<lparr>lastImagePath := Some ''/img/gone.png''\<rparr>, demo_world)
   \<and> files demo_world ''/img/gone.png'' = None"
  using
    continueEditing_not_configured_first [where s = initial_server and rt = demo_rt
      and args = demo_continue_args and w = demo_world]
    continueEditing_not_configured_first
      [where s = "initial_server\<lparr>lastImagePath := Some ''/img/gone.png''\<rparr>"
         and rt = demo_rt and args = demo_continue_args and w = demo_world]
  by (simp add: ensureConfigured_def initial_server_def)
     (simp add: demo_world_def demo_files_def)

section \<open>The model id\<close>

lemma resolveModel_default:
  "resolveModel None = Inr DEFAULT_MODEL"
  "resolveModel (Some []) = Inr DEFAULT_MODEL"
  "resolveModel (Some DEFAULT_MODEL) = Inr DEFAULT_MODEL"
  by (simp_all add: resolveModel_def SUPPORTED_MODELS_def DEFAULT_MODEL_def)

lemma resolveModel_unsupported:
  "m \<noteq> [] \<Longrightarrow> m \<notin> set SUPPORTED_MODELS \<Longrightarrow>
     resolveModel (Some m) =
       Inl (McpError InvalidParams
             (''Unsupported model '' @ dq @ m @ dq
               @ ''. Supported: gemini-2.5-flash-image, gemini-3-pro-image-preview''))"
  by (simp add: resolveModel_def SUPPORTED_MODELS_def DEFAULT_MODEL_def)

lemma generateImage_model_cong:
  assumes "resolveModel (gen_model a) = resolveModel (gen_model b)"
    and "gen_prompt a = gen_prompt b"
  shows "generateImage rt a st = generateImage rt b st"
  unfolding generateImage_def assms by (rule refl)

lemma editImage_model_cong:
  assumes "resolveModel (edit_model a) = resolveModel (edit_model b)"
    and "edit_prompt a = edit_prompt b" and "edit_imagePath a = edit_imagePath b"
    and "edit_referenceImages a = edit_referenceImages b"
  shows "editImage rt a st = editImage rt b st"
  unfolding editImage_def assms by (rule refl)

lemma demo_generate:
  "generateImage demo_rt \<lparr>gen_prompt = ''a banana'', gen_model = Some []\<rparr>
     (demo_server, demo_world) =
     (Inr [TextItem (statusText ''generated'' ''a banana'' ''A banana.'' [] [])],
      demo_server,
      demo_world\<lparr>remote_log :=
        [\<lparr>req_apiKey = ''ENVKEY'', req_model = ''gemini-2.5-flash-image'',
          req_contents = PromptOnly ''a banana''\<rparr>]\<rparr>)"
proof -
  have cfg: "ensureConfigured demo_server" and key: "genAI demo_server = Some ''ENVKEY''"
    by (simp_all add: ensureConfigured_def demo_server_def)
  have mdl: "resolveModel (gen_model \<lparr>gen_prompt = ''a banana'', gen_model = Some []\<rparr>) =
      Inr ''gemini-2.5-flash-image''"
    by (simp add: resolveModel_default) (simp add: DEFAULT_MODEL_def)
  have prov: "provider demo_world = (\<lambda>req. Inr (response_of [[text_part ''A banana.'']]))"
    and lg: "remote_log demo_world = []"
    by (simp_all add: demo_world_def)
  have mk: "mkdir_error (demo_world\<lparr>remote_log := l\<rparr>) (getImagesDirectory demo_rt) = None" for l
    by (simp add: demo_world_def)
  show ?thesis
    by (simp add: generateImage_eq [OF cfg mdl] key prov lg
        buildImageResponse_no_image [OF mk] demo_text_only)
qed

section \<open>A response without an image\<close>

lemma buildImageResponse_no_image_state:
  assumes "image_parts (first_parts resp) = []"
  shows "snd (buildImageResponse rt resp prefix promptText warnings (s, w)) = (s, w)"
proof (cases "mkdir_error w (getImagesDirectory rt)")
  case None
  then show ?thesis by (simp add: buildImageResponse_no_image [OF None assms])
next
  case (Some m)
  then show ?thesis by (simp add: buildImageResponse_def)
qed

section \<open>The active credential\<close>

lemma configureGeminiToken_empty:
  "configureGeminiToken rt [] (s, w) =
     (Inl (McpError InvalidParams ''Invalid API key: Gemini API key is required''), s, w)"
  by (simp add: configureGeminiToken_def ConfigSchema_parse_key)

lemma configureGeminiToken_server:
  "k \<noteq> [] \<Longrightarrow>
     fst (snd (configureGeminiToken rt k (s, w))) =
       s\<lparr>config := Some \<lparr>geminiApiKey = k\<rparr>, genAI := Some k, configSource := config_file\<rparr>"
  by (simp add: configureGeminiToken_def ConfigSchema_parse_key Let_def split: prod.splits sum.splits)

lemma callTool_state:
  "snd (callTool rt call st) =
     snd (case call of
            configure_gemini_token apiKey \<Rightarrow> configureGeminiToken rt apiKey st
          | generate_image args \<Rightarrow> generateImage rt args st
          | edit_image args \<Rightarrow> editImage rt args st
          | get_configuration_status \<Rightarrow> (Inr (getConfigurationStatus (fst st)), st)
          | continue_editing args \<Rightarrow> continueEditing rt args st
          | get_last_image_info \<Rightarrow> (Inr (getLastImageInfo (fst st) (snd st)), st)
          | unknown_tool name \<Rightarrow> (Inl (McpError MethodNotFound (''Unknown tool: '' @ name)), st))"
  by (simp add: callTool_def split: prod.splits sum.splits failure.splits)

lemma callTool_frame:
  assumes "\<not> is_configure call"
  shows "call_frame (s, w) (snd (callTool rt call (s, w)))"
  using assms generateImage_frame [of s w rt] editImage_frame [of s w rt]
    continueEditing_frame [of s w rt]
  by (cases call) (simp_all add: callTool_state, simp_all add: call_frame_def)

lemma demo_startup: "loadConfig demo_rt_env demo_world initial_server = demo_server"
  by (simp add: loadConfig_def demo_rt_env_def demo_rt_def ConfigSchema_parse_key
      initial_server_def demo_server_def)

lemma demo_configure:
  "configureGeminiToken demo_rt_env ''NEWKEY'' (demo_server, demo_world) =
     (Inr [TextItem (''Gemini API token configured successfully. ''
             @ ''You can now use nano-banana image generation features.'')],
      demo_server\<lparr>config := Some \<lparr>geminiApiKey = ''NEWKEY''\<rparr>, genAI := Some ''NEWKEY'',
        configSource := config_file\<rparr>,
      demo_world\<lparr>files := (files demo_world)
          (''/home/u/.nano-banana-config.json'' \<mapsto>
             \<lparr>fsize = length (demo_config_text ''NEWKEY''),
              fbytes = Inr (demo_config_text ''NEWKEY'')\<rparr>),
        write_log := [(''/home/u/.nano-banana-config.json'', demo_config_text ''NEWKEY'')]\<rparr>)"
proof -
  have we: "write_error demo_world = (\<lambda>p. None)" and wl: "write_log demo_world = []"
    by (simp_all add: demo_world_def)
  have js: "JSON_stringify demo_rt_env (Config_json \<lparr>geminiApiKey = ''NEWKEY''\<rparr>) =
      demo_config_text ''NEWKEY''"
    by (simp add: demo_rt_env_def demo_rt_def Config_json_def)
  show ?thesis
    by (simp add: configureGeminiToken_def ConfigSchema_parse_key saveConfig_def
        fs_writeFile_def demo_config_path we wl js)
qed

text \<open>C6, as the code has it: the active credential and its source label are not fixed at
  startup. A call of any tool but the configure tool leaves \<open>config\<close>, the client and
  \<open>configSource\<close> as they were; a configure call with a non-empty token makes that token
  the active credential with the label \<open>config_file\<close>, and one with an empty token is
  rejected and changes nothing.\<close>

theorem credential_changed_only_by_configure:
  "(\<not> is_configure call \<longrightarrow>
      config (fst (snd (callTool rt call (s, w)))) = config s
      \<and> genAI (fst (snd (callTool rt call (s, w)))) = genAI s
      \<and> configSource (fst (snd (callTool rt call (s, w)))) = configSource s)
   \<and> (k \<noteq> [] \<longrightarrow>
      fst (snd (callTool rt (configure_gemini_token k) (s, w))) =
        s\<lparr>config := Some \<lparr>geminiApiKey = k\<rparr>, genAI := Some k, configSource := config_file\<rparr>)
   \<and> callTool rt (configure_gemini_token []) (s, w) =
       (Inl (McpError InvalidParams ''Invalid API key: Gemini API key is required''), s, w)"
proof -
  have frame: "config (fst st') = config s \<and> genAI (fst st') = genAI s
      \<and> configSource (fst st') = configSource s"
    if "call_frame (s, w) st'" for st'
  proof -
    from that have "fst st' = s\<lparr>lastImagePath := lastImagePath (fst st')\<rparr>"
      by (simp add: call_frame_def)
    then have "config (fst st') = config (s\<lparr>lastImagePath := lastImagePath (fst st')\<rparr>)"
      "genAI (fst st') = genAI (s\<lparr>lastImagePath := lastImagePath (fst st')\<rparr>)"
      "configSource (fst st') = configSource (s\<lparr>lastImagePath := lastImagePath (fst st')\<rparr>)"
      by simp_all
    then show ?thesis by simp
  qed
  have one: "config (fst (snd (callTool rt call (s, w)))) = config s
      \<and> genAI (fst (snd (callTool rt call (s, w)))) = genAI s
      \<and> configSource (fst (snd (callTool rt call (s, w)))) = configSource s"
    if "\<not> is_configure call"
    using frame [OF callTool_frame [OF that]] .
  have two: "fst (snd (callTool rt (configure_gemini_token k) (s, w))) =
        s\<lparr>config := Some \<lparr>geminiApiKey = k\<rparr>, genAI := Some k, configSource := config_file\<rparr>"
    if "k \<noteq> []"
    using configureGeminiToken_server [OF that] by (simp add: callTool_state)
  have three: "callTool rt (configure_gemini_token []) (s, w) =
       (Inl (McpError InvalidParams ''Invalid API key: Gemini API key is required''), s, w)"
    by (simp add: callTool_def configureGeminiToken_empty)
  from one two three show ?thesis by blast
qed

theorem credential_changed_only_by_configure_witness:
  "config (fst (snd (callTool demo_rt (generate_image demo_generate_args)
       (demo_server, demo_world)))) = Some \<lparr>geminiApiKey = ''ENVKEY''\<rparr>
   \<and> configSource (fst (snd (callTool demo_rt (generate_image demo_generate_args)
       (demo_server, demo_world)))) = environment
   \<and> fst (snd (callTool demo_rt (configure_gemini_token ''NEWKEY'') (demo_server, demo_world))) =
     demo_server\<lparr>config := Some \<lparr>geminiApiKey = ''NEWKEY''\<rparr>, genAI := Some ''NEWKEY'',
       configSource := config_file\<rparr>"
  using
    credential_changed_only_by_configure [where call = "generate_image demo_generate_args"
      and rt = demo_rt and s = demo_server and w = demo_world and k = "''NEWKEY''"]
  by (simp add: demo_server_def)

theorem credential_immutable_counterexample:
  "loadConfig demo_rt_env demo_world initial_server = demo_server
   \<and> config demo_server = Some \<lparr>geminiApiKey = ''ENVKEY''\<rparr>
   \<and> configSource demo_server = environment
   \<and> callTool demo_rt_env (configure_gemini_token ''NEWKEY'') (demo_server, demo_world) =
     (Inr [TextItem (''Gemini API token configured successfully. ''
             @ ''You can now use nano-banana image generation features.'')],
      demo_server\<lparr>config := Some \<lparr>geminiApiKey = ''NEWKEY''\<rparr>, genAI := Some ''NEWKEY'',
        configSource := config_file\<rparr>,
      demo_world\<lparr>files := (files demo_world)
          (''/home/u/.nano-banana-config.json'' \<mapsto>
             \<lparr>fsize = length (demo_config_text ''NEWKEY''),
              fbytes = Inr (demo_config_text ''NEWKEY'')\<rparr>),
        write_log := [(''/home/u/.nano-banana-config.json'', demo_config_text ''NEWKEY'')]\<rparr>)"
  by (simp add: demo_startup callTool_def demo_configure) (simp add: demo_server_def)

section \<open>Failures and side effects\<close>

lemma demo_configure_readonly:
  "configureGeminiToken demo_rt ''NEWKEY'' (initial_server, demo_world_readonly) =
     (Inl (Error ''EACCES: permission denied''),
      initial_server\<lparr>config := Some \<lparr>geminiApiKey = ''NEWKEY''\<rparr>, genAI := Some ''NEWKEY'',
        configSource := config_file\<rparr>,
      demo_world_readonly)"
  by (simp add: configureGeminiToken_def ConfigSchema_parse_key saveConfig_def
      fs_writeFile_def demo_world_readonly_def)

lemma demo_paths:
  "artifact_path demo_rt ''/home/u/proj/generated_imgs'' ''generated'' demo_world_full 0 =
     ''/home/u/proj/generated_imgs/generated-2026-01-01T00-00-00-000Z-k3x9q0.png''"
  "artifact_path demo_rt ''/home/u/proj/generated_imgs'' ''generated'' demo_world_full (Suc 0) =
     ''/home/u/proj/generated_imgs/generated-2026-01-01T00-00-01-000Z-k3x9q1.png''"
  by (simp_all add: artifact_path_def demo_rt_def demo_world_full_def demo_world_def
      show_nat.simps digit_def)

lemma demo_images_dir: "getImagesDirectory demo_rt = ''/home/u/proj/generated_imgs''"
  by (simp add: getImagesDirectory_def demo_rt_def startsWith_def)

lemma demo_generate_full:
  "fst (generateImage demo_rt demo_generate_args (demo_server, demo_world_full)) =
     Inl (McpError InternalError ''Failed to generate image: ENOSPC: no space left on device'')
   \<and> lastImagePath (fst (snd (generateImage demo_rt demo_generate_args
        (demo_server, demo_world_full)))) =
     Some ''/home/u/proj/generated_imgs/generated-2026-01-01T00-00-00-000Z-k3x9q0.png''"
proof -
  have cfg: "ensureConfigured demo_server" and key: "genAI demo_server = Some ''ENVKEY''"
    by (simp_all add: ensureConfigured_def demo_server_def)
  have mdl: "resolveModel (gen_model demo_generate_args) = Inr ''gemini-2.5-flash-image''"
    by (simp add: demo_generate_args_def resolveModel_default) (simp add: DEFAULT_MODEL_def)
  have prov: "provider demo_world_full = (\<lambda>req. Inr demo_response)"
    and mk: "mkdir_error demo_world_full = (\<lambda>p. None)"
    and tk: "ticks demo_world_full = 0"
    and we: "write_error demo_world_full =
          (\<lambda>p. if p = ''/home/u/proj/generated_imgs/generated-2026-01-01T00-00-01-000Z-k3x9q1.png''
               then Some ''ENOSPC: no space left on device'' else None)"
    by (simp_all add: demo_world_full_def demo_world_def)
  have fp: "first_parts demo_response =
      [text_part ''A '', image_part ''b64:IMG1'' ''image/webp'', text_part ''banana.'',
       image_part ''b64:IMG2'' []]"
    by (simp add: demo_response_def response_of_def first_parts_def)
  have parts: "image_data (text_part t) = None" "image_data (image_part ''b64:IMG1'' m) = Some ''b64:IMG1''"
    "image_data (image_part ''b64:IMG2'' m) = Some ''b64:IMG2''" for t m
    by (simp_all add: image_data_def text_part_def image_part_def truthy_def)
  show ?thesis
    by (simp add: generateImage_eq [OF cfg mdl] prov buildImageResponse_def mk demo_images_dir
        fp parts saveImage_cases tk we demo_paths message_def)
qed

lemma demo_generate_down:
  "generateImage demo_rt demo_generate_args
     (demo_server\<lparr>lastImagePath := Some ''/img/a.PNG''\<rparr>, demo_world_down) =
     (Inl (McpError InternalError ''Failed to generate image: 429 quota exceeded''),
      demo_server\<lparr>lastImagePath := Some ''/img/a.PNG''\<rparr>,
      demo_world_down\<lparr>remote_log :=
        [\<lparr>req_apiKey = ''ENVKEY'', req_model = ''gemini-2.5-flash-image'',
          req_contents = PromptOnly ''a banana''\<rparr>]\<rparr>)"
proof -
  have cfg: "ensureConfigured (demo_server\<lparr>lastImagePath := Some ''/img/a.PNG''\<rparr>)"
    and key: "genAI (demo_server\<lparr>lastImagePath := Some ''/img/a.PNG''\<rparr>) = Some ''ENVKEY''"
    by (simp_all add: ensureConfigured_def demo_server_def)
  have mdl: "resolveModel (gen_model demo_generate_args) = Inr ''gemini-2.5-flash-image''"
    by (simp add: demo_generate_args_def resolveModel_default) (simp add: DEFAULT_MODEL_def)
  have prov: "provider demo_world_down = (\<lambda>req. Inl ''429 quota exceeded'')"
    and lg: "remote_log demo_world_down = []"
    by (simp_all add: demo_world_down_def demo_world_def)
  show ?thesis
    by (simp add: generateImage_eq [OF cfg mdl] prov key lg)
       (simp add: demo_generate_args_def)
qed

text \<open>C5, as the code has it: a call that fails validation (no credential, an unsupported
  model id, an invalid primary image, an empty token) returns its error with the server
  and the world exactly as they were, so before any remote call and before any write; and
  a generate or edit call that has written no artifact file, as every call that fails at or
  before the remote call, leaves the server, and so \<open>lastImagePath\<close>, unchanged.\<close>

theorem validation_failures_have_no_effect:
  "(\<not> ensureConfigured s \<longrightarrow>
      generateImage rt a (s, w) = (Inl not_configured_error, s, w)
      \<and> editImage rt e (s, w) = (Inl not_configured_error, s, w))
   \<and> (ensureConfigured s \<and> resolveModel (gen_model a) = Inl err \<longrightarrow>
      generateImage rt a (s, w) = (Inl err, s, w))
   \<and> (ensureConfigured s \<and> resolveModel (edit_model e) = Inl err \<longrightarrow>
      editImage rt e (s, w) = (Inl err, s, w))
   \<and> (ensureConfigured s \<and> resolveModel (edit_model e) = Inr m
       \<and> validateImagePath rt w (edit_imagePath e) = Inl err \<longrightarrow>
      editImage rt e (s, w) = (Inl err, s, w))
   \<and> (write_log (snd (snd (generateImage rt a (s, w)))) = write_log w \<longrightarrow>
      fst (snd (generateImage rt a (s, w))) = s)
   \<and> (write_log (snd (snd (editImage rt e (s, w)))) = write_log w \<longrightarrow>
      fst (snd (editImage rt e (s, w))) = s)
   \<and> configureGeminiToken rt [] (s, w) =
       (Inl (McpError InvalidParams ''Invalid API key: Gemini API key is required''), s, w)"
  using generateImage_frame [of s w rt a] editImage_frame [of s w rt e]
  by (simp add: generateImage_early editImage_early configureGeminiToken_empty call_frame_def)

theorem validation_failures_have_no_effect_witness:
  "generateImage demo_rt demo_generate_args (initial_server, demo_world) =
     (Inl not_configured_error, initial_server, demo_world)
   \<and> editImage demo_rt (demo_edit_args\<lparr>edit_imagePath := ''/img/notes.svg''\<rparr>)
       (demo_server, demo_world) =
     (Inl (McpError InvalidParams
            (''Unsupported image format '' @ dq @ ''.svg'' @ dq
              @ ''. Allowed: .jpg, .jpeg, .png, .webp, .gif'')),
      demo_server, demo_world)
   \<and> fst (snd (generateImage demo_rt demo_generate_args
        (demo_server\<lparr>lastImagePath := Some ''/img/a.PNG''\<rparr>, demo_world_down))) =
     demo_server\<lparr>lastImagePath := Some ''/img/a.PNG''\<rparr>
   \<and> configureGeminiToken demo_rt [] (demo_server, demo_world) =
     (Inl (McpError InvalidParams ''Invalid API key: Gemini API key is required''),
      demo_server, demo_world)"
proof -
  have v: "validateImagePath demo_rt demo_world ''/img/notes.svg'' =
      Inl (McpError InvalidParams
            (''Unsupported image format '' @ dq @ ''.svg'' @ dq
              @ ''. Allowed: .jpg, .jpeg, .png, .webp, .gif''))"
    by (simp add: validateImagePath_def demo_eval)
  have wl: "write_log (demo_world_down\<lparr>remote_log := l\<rparr>) = write_log demo_world_down" for l
    by simp
  have cfg: "\<not> ensureConfigured initial_server" "ensureConfigured demo_server"
    by (simp_all add: ensureConfigured_def initial_server_def demo_server_def)
  have args: "resolveModel (edit_model demo_edit_args) = Inr ''gemini-2.5-flash-image''"
      "resolveModel (gen_model demo_generate_args) = Inr ''gemini-2.5-flash-image''"
    by (simp_all add: demo_edit_args_def demo_generate_args_def resolveModel_default)
       (simp_all add: DEFAULT_MODEL_def)
  show ?thesis
    using
      validation_failures_have_no_effect [where s = initial_server and rt = demo_rt
        and a = demo_generate_args and w = demo_world and e = demo_edit_args]
      validation_failures_have_no_effect [where s = demo_server and rt = demo_rt
        and a = demo_generate_args and w = demo_world
        and e = "demo_edit_args\<lparr>edit_imagePath := ''/img/notes.svg''\<rparr>"
        and m = "''gemini-2.5-flash-image''"
        and err = "McpError InvalidParams
            (''Unsupported image format '' @ dq @ ''.svg'' @ dq
              @ ''. Allowed: .jpg, .jpeg, .png, .webp, .gif'')"]
      validation_failures_have_no_effect
        [where s = "demo_server\<lparr>lastImagePath := Some ''/img/a.PNG''\<rparr>" and rt = demo_rt
          and a = demo_generate_args and w = demo_world_down and e = demo_edit_args]
    by (simp add: cfg args v demo_generate_down wl)
qed

theorem failed_call_side_effect_counterexample:
  "configureGeminiToken demo_rt ''NEWKEY'' (initial_server, demo_world_readonly) =
     (Inl (Error ''EACCES: permission denied''),
      initial_server\<lparr>config := Some \<lparr>geminiApiKey = ''NEWKEY''\<rparr>, genAI := Some ''NEWKEY'',
        configSource := config_file\<rparr>,
      demo_world_readonly)
   \<and> config initial_server = None
   \<and> fst (generateImage demo_rt demo_generate_args (demo_server, demo_world_full)) =
     Inl (McpError InternalError ''Failed to generate image: ENOSPC: no space left on device'')
   \<and> lastImagePath (fst (snd (generateImage demo_rt demo_generate_args
        (demo_server, demo_world_full)))) =
     Some ''/home/u/proj/generated_imgs/generated-2026-01-01T00-00-00-000Z-k3x9q0.png''
   \<and> lastImagePath demo_server = None"
  using demo_configure_readonly demo_generate_full
  by (simp add: initial_server_def demo_server_def)

section \<open>Continuing from the last image: the prior-image checks\<close>

text \<open>C8, as the code has it: without a configured credential \<open>continue_editing\<close> fails
  with the not-configured error before either check of the prior image and changes nothing;
  once a credential is configured, \<open>continue_editing\<close> fails with
  the no-prior-image error when the session holds no last image path, with the distinct
  stale-prior-image error when the tracked file is gone, and otherwise is the edit call with
  the last image path as primary image. In the vanished-file state \<open>get_last_image_info\<close>
  answers with the text "Status: File not found", and through the handler it always
  answers and never fails.\<close>

theorem continueEditing_prior_image:
  "(\<not> ensureConfigured s \<longrightarrow>
      continueEditing rt args (s, w) =
        (Inl (McpError InvalidRequest
               ''Gemini API token not configured. Use configure_gemini_token first.''), s, w))
   \<and> (ensureConfigured s \<and> \<not> truthy (lastImagePath s) \<longrightarrow>
      continueEditing rt args (s, w) =
        (Inl (McpError InvalidRequest
               ''No previous image found. Please generate or edit an image first.''), s, w))
   \<and> (ensureConfigured s \<and> lastImagePath s = Some p \<and> p \<noteq> [] \<and> files w p = None \<longrightarrow>
      continueEditing rt args (s, w) =
        (Inl (McpError InvalidRequest
               (''Last image file not found at: '' @ p @ ''. Please generate a new image first.'')),
         s, w))
   \<and> McpError InvalidRequest ''No previous image found. Please generate or edit an image first.''
      \<noteq> McpError InvalidRequest
           (''Last image file not found at: '' @ p @ ''. Please generate a new image first.'')
   \<and> (ensureConfigured s \<and> lastImagePath s = Some p \<and> p \<noteq> [] \<and> files w p \<noteq> None \<longrightarrow>
      continueEditing rt args (s, w) =
        editImage rt
          \<lparr>edit_imagePath = p, edit_prompt = cont_prompt args,
           edit_referenceImages = cont_referenceImages args, edit_model = cont_model args\<rparr>
          (s, w))
   \<and> (lastImagePath s = Some p \<and> p \<noteq> [] \<and> files w p = None \<longrightarrow>
      getLastImageInfo s w =
        [TextItem (''Last Image Information:'' @ nl @ nl @ ''Path: '' @ p
           @ nl @ ''Status: File not found''
           @ nl @ nl @ ''The image file may have been moved or deleted. ''
           @ ''Please generate a new image.'')])
   \<and> callTool rt get_last_image_info (s, w) = (Inr (getLastImageInfo s w), s, w)"
  by (simp add: continueEditing_def truthy_def fs_access_def no_prior_image_error_def
      stale_prior_image_error_def not_configured_error_def getLastImageInfo_def callTool_def)

theorem continueEditing_prior_image_witness:
  "continueEditing demo_rt demo_continue_args (initial_server, demo_world) =
     (Inl (McpError InvalidRequest
            ''Gemini API token not configured. Use configure_gemini_token first.''),
      initial_server, demo_world)
   \<and> continueEditing demo_rt demo_continue_args (demo_server, demo_world) =
     (Inl (McpError InvalidRequest
            ''No previous image found. Please generate or edit an image first.''),
      demo_server, demo_world)
   \<and> continueEditing demo_rt demo_continue_args
       (demo_server\<lparr>lastImagePath := Some ''/img/gone.png''\<rparr>, demo_world) =
     (Inl (McpError InvalidRequest
            ''Last image file not found at: /img/gone.png. Please generate a new image first.''),
      demo_server\<lparr>lastImagePath := Some ''/img/gone.png''\<rparr>, demo_world)
   \<and> getLastImageInfo (demo_server\<lparr>lastImagePath := Some ''/img/gone.png''\<rparr>) demo_world =
     [TextItem (''Last Image Information:'' @ nl @ nl @ ''Path: /img/gone.png''
        @ nl @ ''Status: File not found''
        @ nl @ nl @ ''The image file may have been moved or deleted. ''
        @ ''Please generate a new image.'')]
   \<and> continueEditing demo_rt demo_continue_args
       (demo_server\<lparr>lastImagePath := Some ''/img/a.PNG''\<rparr>, demo_world) =
     editImage demo_rt
       \<lparr>edit_imagePath = ''/img/a.PNG'', edit_prompt = ''make it blue'',
        edit_referenceImages = None, edit_model = None\<rparr>
       (demo_server\<lparr>lastImagePath := Some ''/img/a.PNG''\<rparr>, demo_world)"
  using
    continueEditing_prior_image [where s = initial_server and rt = demo_rt
      and args = demo_continue_args and w = demo_world]
    continueEditing_prior_image [where s = demo_server and rt = demo_rt
      and args = demo_continue_args and w = demo_world]
    continueEditing_prior_image
      [where s = "demo_server\<lparr>lastImagePath := Some ''/img/gone.png''\<rparr>"
         and p = "''/img/gone.png''" and w = demo_world and rt = demo_rt
         and args = demo_continue_args]
    continueEditing_prior_image
      [where s = "demo_server\<lparr>lastImagePath := Some ''/img/a.PNG''\<rparr>"
         and p = "''/img/a.PNG''" and w = demo_world and rt = demo_rt
         and args = demo_continue_args]
  by (simp add: ensureConfigured_def truthy_def demo_server_def initial_server_def
      demo_continue_args_def)
     (simp add: demo_world_def demo_files_def)

theorem continueEditing_no_prior_image_counterexample:
  "lastImagePath initial_server = None
   \<and> continueEditing demo_rt demo_continue_args (initial_server, demo_world) =
     (Inl (McpError InvalidRequest
            ''Gemini API token not configured. Use configure_gemini_token first.''),
      initial_server, demo_world)
   \<and> McpError InvalidRequest ''Gemini API token not configured. Use configure_gemini_token first.''
     \<noteq> no_prior_image_error"
  using continueEditing_unconfigured [of initial_server demo_rt demo_continue_args demo_world]
    prior_image_errors_distinct(1)
  by (simp add: ensureConfigured_def initial_server_def not_configured_error_def)


section \<open>The model id: default and rejection\<close>

text \<open>C9, as the code has it: for generate and for edit, leaving the model id out is the
  same call as passing the default model id, and so is passing the empty string; with a
  credential configured, a non-empty model id outside the supported set is rejected with
  \<open>InvalidParams\<close> and nothing changes; without a credential the call is rejected with the
  not-configured error instead, whatever the model id, and nothing changes; and, configured
  or not, no remote call is made for a non-empty id outside the supported set.\<close>

theorem model_default_and_rejection:
  "generateImage rt (a\<lparr>gen_model := None\<rparr>) st =
     generateImage rt (a\<lparr>gen_model := Some DEFAULT_MODEL\<rparr>) st
   \<and> editImage rt (e\<lparr>edit_model := None\<rparr>) st =
     editImage rt (e\<lparr>edit_model := Some DEFAULT_MODEL\<rparr>) st
   \<and> generateImage rt (a\<lparr>gen_model := Some []\<rparr>) st =
     generateImage rt (a\<lparr>gen_model := None\<rparr>) st
   \<and> editImage rt (e\<lparr>edit_model := Some []\<rparr>) st =
     editImage rt (e\<lparr>edit_model := None\<rparr>) st
   \<and> (m \<noteq> [] \<and> m \<notin> set SUPPORTED_MODELS \<and> ensureConfigured s \<longrightarrow>
        generateImage rt (a\<lparr>gen_model := Some m\<rparr>) (s, w) =
          (Inl (McpError InvalidParams
                 (''Unsupported model '' @ dq @ m @ dq
                   @ ''. Supported: gemini-2.5-flash-image, gemini-3-pro-image-preview'')),
           s, w)
        \<and> editImage rt (e\<lparr>edit_model := Some m\<rparr>) (s, w) =
          (Inl (McpError InvalidParams
                 (''Unsupported model '' @ dq @ m @ dq
                   @ ''. Supported: gemini-2.5-flash-image, gemini-3-pro-image-preview'')),
           s, w))
   \<and> (\<not> ensureConfigured s \<longrightarrow>
        generateImage rt (a\<lparr>gen_model := Some m\<rparr>) (s, w) =
          (Inl (McpError InvalidRequest
                 ''Gemini API token not configured. Use configure_gemini_token first.''), s, w)
        \<and> editImage rt (e\<lparr>edit_model := Some m\<rparr>) (s, w) =
          (Inl (McpError InvalidRequest
                 ''Gemini API token not configured. Use configure_gemini_token first.''), s, w))
   \<and> (m \<noteq> [] \<and> m \<notin> set SUPPORTED_MODELS \<longrightarrow>
        remote_log (snd (snd (generateImage rt (a\<lparr>gen_model := Some m\<rparr>) (s, w)))) = remote_log w
        \<and> remote_log (snd (snd (editImage rt (e\<lparr>edit_model := Some m\<rparr>) (s, w)))) = remote_log w)"
proof -
  have nc: "generateImage rt (a\<lparr>gen_model := Some m\<rparr>) (s, w) =
          (Inl (McpError InvalidRequest
                 ''Gemini API token not configured. Use configure_gemini_token first.''), s, w)
        \<and> editImage rt (e\<lparr>edit_model := Some m\<rparr>) (s, w) =
          (Inl (McpError InvalidRequest
                 ''Gemini API token not configured. Use configure_gemini_token first.''), s, w)"
    if "\<not> ensureConfigured s"
    using that
    by (simp add: generateImage_early(1) editImage_early(1) not_configured_error_def)
  have un: "generateImage rt (a\<lparr>gen_model := Some m\<rparr>) (s, w) =
          (Inl (McpError InvalidParams
                 (''Unsupported model '' @ dq @ m @ dq
                   @ ''. Supported: gemini-2.5-flash-image, gemini-3-pro-image-preview'')),
           s, w)
        \<and> editImage rt (e\<lparr>edit_model := Some m\<rparr>) (s, w) =
          (Inl (McpError InvalidParams
                 (''Unsupported model '' @ dq @ m @ dq
                   @ ''. Supported: gemini-2.5-flash-image, gemini-3-pro-image-preview'')),
           s, w)"
    if "m \<noteq> []" "m \<notin> set SUPPORTED_MODELS" "ensureConfigured s"
    using that
    by (simp add: generateImage_early(2) editImage_early(2) resolveModel_unsupported)
  have lg: "remote_log (snd (snd (generateImage rt (a\<lparr>gen_model := Some m\<rparr>) (s, w)))) = remote_log w
        \<and> remote_log (snd (snd (editImage rt (e\<lparr>edit_model := Some m\<rparr>) (s, w)))) = remote_log w"
    if "m \<noteq> []" "m \<notin> set SUPPORTED_MODELS"
  proof (cases "ensureConfigured s")
    case True
    with un that show ?thesis by simp
  next
    case False
    then show ?thesis by (simp add: generateImage_early(1) editImage_early(1))
  qed
  show ?thesis
    using un lg nc
    by (simp add: generateImage_model_cong editImage_model_cong resolveModel_default)
qed

theorem model_default_and_rejection_witness:
  "generateImage demo_rt \<lparr>gen_prompt = ''a banana'', gen_model = None\<rparr> (demo_server, demo_world) =
     generateImage demo_rt \<lparr>gen_prompt = ''a banana'', gen_model = Some ''gemini-2.5-flash-image''\<rparr>
       (demo_server, demo_world)
   \<and> generateImage demo_rt \<lparr>gen_prompt = ''a banana'', gen_model = Some ''gpt-5''\<rparr>
       (demo_server, demo_world) =
     (Inl (McpError InvalidParams
            (''Unsupported model '' @ dq @ ''gpt-5'' @ dq
              @ ''. Supported: gemini-2.5-flash-image, gemini-3-pro-image-preview'')),
      demo_server, demo_world)
   \<and> editImage demo_rt (demo_edit_args\<lparr>edit_model := Some ''gpt-5''\<rparr>) (demo_server, demo_world) =
     (Inl (McpError InvalidParams
            (''Unsupported model '' @ dq @ ''gpt-5'' @ dq
              @ ''. Supported: gemini-2.5-flash-image, gemini-3-pro-image-preview'')),
      demo_server, demo_world)
   \<and> generateImage demo_rt \<lparr>gen_prompt = ''a banana'', gen_model = Some ''gpt-5''\<rparr>
       (initial_server, demo_world) =
     (Inl (McpError InvalidRequest
            ''Gemini API token not configured. Use configure_gemini_token first.''),
      initial_server, demo_world)
   \<and> remote_log (snd (snd (generateImage demo_rt
        \<lparr>gen_prompt = ''a banana'', gen_model = Some ''gpt-5''\<rparr> (initial_server, demo_world)))) = []"
proof -
  have cfg: "ensureConfigured demo_server" "\<not> ensureConfigured initial_server"
    by (simp_all add: ensureConfigured_def demo_server_def initial_server_def)
  have rl: "remote_log demo_world = []"
    by (simp add: demo_world_def)
  show ?thesis
    using
      model_default_and_rejection [where rt = demo_rt and a = demo_generate_args
        and e = demo_edit_args and st = "(demo_server, demo_world)" and m = "''gpt-5''"
        and s = demo_server and w = demo_world]
      model_default_and_rejection [where rt = demo_rt and a = demo_generate_args
        and e = demo_edit_args and st = "(demo_server, demo_world)" and m = "''gpt-5''"
        and s = initial_server and w = demo_world]
    by (simp add: demo_generate_args_def SUPPORTED_MODELS_def DEFAULT_MODEL_def cfg rl)
qed

theorem model_rejection_counterexample:
  "[] \<notin> set SUPPORTED_MODELS
   \<and> generateImage demo_rt \<lparr>gen_prompt = ''a banana'', gen_model = Some []\<rparr>
       (demo_server, demo_world) =
     (Inr [TextItem (statusText ''generated'' ''a banana'' ''A banana.'' [] [])],
      demo_server,
      demo_world\<lparr>remote_log :=
        [\<lparr>req_apiKey = ''ENVKEY'', req_model = ''gemini-2.5-flash-image'',
          req_contents = PromptOnly ''a banana''\<rparr>]\<rparr>)
   \<and> ''gpt-5'' \<notin> set SUPPORTED_MODELS
   \<and> generateImage demo_rt \<lparr>gen_prompt = ''a banana'', gen_model = Some ''gpt-5''\<rparr>
       (initial_server, demo_world) =
     (Inl (McpError InvalidRequest
            ''Gemini API token not configured. Use configure_gemini_token first.''),
      initial_server, demo_world)"
  by (simp add: demo_generate SUPPORTED_MODELS_def DEFAULT_MODEL_def generateImage_early(1)
      ensureConfigured_def initial_server_def not_configured_error_def)

section \<open>A response without an image: the result\<close>

lemma statusText_no_file:
  "statusText prefix promptText textContent warnings [] =
     ''Image '' @ (if prefix = ''generated'' then ''generated'' else ''edited'')
     @ '' with nano-banana!'' @ nl @ nl @ ''Prompt: '' @ dq @ promptText @ dq
     @ (if textContent = [] then [] else nl @ nl @ ''Description: '' @ textContent)
     @ (if warnings = [] then []
        else nl @ nl @ ''Warnings:'' @ nl @ join nl (map (\<lambda>x. ''- '' @ x) warnings))
     @ nl @ nl @ ''Note: No image was generated. The model may have returned only text.''"
  unfolding statusText_def bullets_def by simp

lemma buildImageResponse_no_dir:
  "mkdir_error w (getImagesDirectory rt) = Some msg \<Longrightarrow>
     buildImageResponse rt resp prefix promptText warnings (s, w) = (Inl (Error msg), s, w)"
  by (simp add: buildImageResponse_def)

text \<open>C7, as the code has it: the images directory is made before the parts are looked at.
  When the first candidate of the response has no image-bearing part, reassembly writes
  nothing and leaves the server, and so \<open>lastImagePath\<close>, as it was, in every case. When the
  directory can be made the call succeeds: the only item of the result is the status text,
  which lists no saved file and ends with the note that no image was generated. When the
  directory cannot be made the call fails with \<open>InternalError\<close> and the message of the
  failed \<open>mkdir\<close>. A generate or an edit call that gets such a response changes nothing but
  the log of remote calls.\<close>

theorem text_only_response:
  assumes "image_parts (first_parts resp) = []"
  shows "snd (buildImageResponse rt resp prefix promptText warnings (s, w)) = (s, w)
    \<and> (mkdir_error w (getImagesDirectory rt) = None \<longrightarrow>
         buildImageResponse rt resp prefix promptText warnings (s, w) =
           (Inr [TextItem
                  (''Image '' @ (if prefix = ''generated'' then ''generated'' else ''edited'')
                   @ '' with nano-banana!'' @ nl @ nl @ ''Prompt: '' @ dq @ promptText @ dq
                   @ (if texts (first_parts resp) = [] then []
                      else nl @ nl @ ''Description: '' @ texts (first_parts resp))
                   @ (if warnings = [] then []
                      else nl @ nl @ ''Warnings:'' @ nl
                           @ join nl (map (\<lambda>x. ''- '' @ x) warnings))
                   @ nl @ nl
                   @ ''Note: No image was generated. The model may have returned only text.'')],
            s, w))
    \<and> (mkdir_error w (getImagesDirectory rt) = Some msg \<longrightarrow>
         buildImageResponse rt resp prefix promptText warnings (s, w) = (Inl (Error msg), s, w))
    \<and> (ensureConfigured s \<and> resolveModel (gen_model a) = Inr m
        \<and> provider w \<lparr>req_apiKey = the (genAI s), req_model = m,
                        req_contents = PromptOnly (gen_prompt a)\<rparr> = Inr resp \<longrightarrow>
         generateImage rt a (s, w) =
           (case mkdir_error w (getImagesDirectory rt) of
              None \<Rightarrow>
                Inr [TextItem
                      (''Image generated with nano-banana!'' @ nl @ nl
                       @ ''Prompt: '' @ dq @ gen_prompt a @ dq
                       @ (if texts (first_parts resp) = [] then []
                          else nl @ nl @ ''Description: '' @ texts (first_parts resp))
                       @ nl @ nl
                       @ ''Note: No image was generated. The model may have returned only text.'')]
            | Some msg \<Rightarrow>
                Inl (McpError InternalError (''Failed to generate image: '' @ msg)),
            s,
            w\<lparr>remote_log := remote_log w @
                 [\<lparr>req_apiKey = the (genAI s), req_model = m,
                   req_contents = PromptOnly (gen_prompt a)\<rparr>]\<rparr>))
    \<and> (ensureConfigured s \<and> resolveModel (edit_model e) = Inr m
        \<and> validateImagePath rt w (edit_imagePath e) = Inr ()
        \<and> fs_readFile w (edit_imagePath e) = Inr buf
        \<and> provider w (edit_request rt w (the (genAI s)) m e buf) = Inr resp \<longrightarrow>
         editImage rt e (s, w) =
           (case mkdir_error w (getImagesDirectory rt) of
              None \<Rightarrow>
                Inr [TextItem
                      (''Image edited with nano-banana!'' @ nl @ nl
                       @ ''Prompt: '' @ dq @ edit_prompt e @ dq
                       @ (if texts (first_parts resp) = [] then []
                          else nl @ nl @ ''Description: '' @ texts (first_parts resp))
                       @ (if ref_warnings rt w
                               (case edit_referenceImages e of None \<Rightarrow> [] | Some rs \<Rightarrow> rs) = []
                          then []
                          else nl @ nl @ ''Warnings:'' @ nl
                               @ join nl (map (\<lambda>x. ''- '' @ x)
                                   (ref_warnings rt w
                                      (case edit_referenceImages e of
                                         None \<Rightarrow> [] | Some rs \<Rightarrow> rs))))
                       @ nl @ nl
                       @ ''Note: No image was generated. The model may have returned only text.'')]
            | Some msg \<Rightarrow>
                Inl (McpError InternalError (''Failed to edit image: '' @ msg)),
            s,
            w\<lparr>remote_log := remote_log w @ [edit_request rt w (the (genAI s)) m e buf]\<rparr>))"
proof -
  have one: "snd (buildImageResponse rt resp prefix promptText warnings (s, w)) = (s, w)"
    by (rule buildImageResponse_no_image_state [OF assms])
  have two: "buildImageResponse rt resp p t ws (s, w') =
      (Inr [TextItem (statusText p t (texts (first_parts resp)) ws [])], s, w')"
    if "mkdir_error w' (getImagesDirectory rt) = None" for p t ws w'
    by (rule buildImageResponse_no_image [OF that assms])
  have gen: "
         generateImage rt a (s, w) =
           (case mkdir_error w (getImagesDirectory rt) of
              None \<Rightarrow>
                Inr [TextItem
                      (''Image generated with nano-banana!'' @ nl @ nl
                       @ ''Prompt: '' @ dq @ gen_prompt a @ dq
                       @ (if texts (first_parts resp) = [] then []
                          else nl @ nl @ ''Description: '' @ texts (first_parts resp))
                       @ nl @ nl
                       @ ''Note: No image was generated. The model may have returned only text.'')]
            | Some msg \<Rightarrow>
                Inl (McpError InternalError (''Failed to generate image: '' @ msg)),
            s,
            w\<lparr>remote_log := remote_log w @
                 [\<lparr>req_apiKey = the (genAI s), req_model = m,
                   req_contents = PromptOnly (gen_prompt a)\<rparr>]\<rparr>)"
    if h: "ensureConfigured s" "resolveModel (gen_model a) = Inr m"
       "provider w \<lparr>req_apiKey = the (genAI s), req_model = m,
                        req_contents = PromptOnly (gen_prompt a)\<rparr> = Inr resp"
  proof (cases "mkdir_error w (getImagesDirectory rt)")
    case None
    then show ?thesis
      using h(3) by (simp add: generateImage_eq [OF h(1,2)] two statusText_no_file)
  next
    case (Some msg)
    then show ?thesis
      using h(3)
      by (simp add: generateImage_eq [OF h(1,2)] buildImageResponse_no_dir message_def)
  qed
  have edit: "
         editImage rt e (s, w) =
           (case mkdir_error w (getImagesDirectory rt) of
              None \<Rightarrow>
                Inr [TextItem
                      (''Image edited with nano-banana!'' @ nl @ nl
                       @ ''Prompt: '' @ dq @ edit_prompt e @ dq
                       @ (if texts (first_parts resp) = [] then []
                          else nl @ nl @ ''Description: '' @ texts (first_parts resp))
                       @ (if ref_warnings rt w
                               (case edit_referenceImages e of None \<Rightarrow> [] | Some rs \<Rightarrow> rs) = []
                          then []
                          else nl @ nl @ ''Warnings:'' @ nl
                               @ join nl (map (\<lambda>x. ''- '' @ x)
                                   (ref_warnings rt w
                                      (case edit_referenceImages e of
                                         None \<Rightarrow> [] | Some rs \<Rightarrow> rs))))
                       @ nl @ nl
                       @ ''Note: No image was generated. The model may have returned only text.'')]
            | Some msg \<Rightarrow>
                Inl (McpError InternalError (''Failed to edit image: '' @ msg)),
            s,
            w\<lparr>remote_log := remote_log w @ [edit_request rt w (the (genAI s)) m e buf]\<rparr>)"
    if h: "ensureConfigured s" "resolveModel (edit_model e) = Inr m"
       "validateImagePath rt w (edit_imagePath e) = Inr ()"
       "fs_readFile w (edit_imagePath e) = Inr buf"
       "provider w (edit_request rt w (the (genAI s)) m e buf) = Inr resp"
  proof (cases "mkdir_error w (getImagesDirectory rt)")
    case None
    then show ?thesis
      using h(5) by (simp add: editImage_ok [OF h(1,2,3,4)] two statusText_no_file)
  next
    case (Some msg)
    then show ?thesis
      using h(5)
      by (simp add: editImage_ok [OF h(1,2,3,4)] buildImageResponse_no_dir editImage_catch_def)
  qed
  show ?thesis
    apply (intro conjI impI)
    subgoal by (rule one)
    subgoal by (simp add: two statusText_no_file)
    subgoal by (simp add: buildImageResponse_no_dir)
    subgoal by (elim conjE) (rule gen)
    subgoal by (elim conjE) (rule edit)
    done
qed

theorem text_only_response_witness:
  "generateImage demo_rt demo_generate_args
     (demo_server\<lparr>lastImagePath := Some ''/img/a.PNG''\<rparr>, demo_world) =
     (Inr [TextItem (''Image generated with nano-banana!'' @ nl @ nl
             @ ''Prompt: '' @ dq @ ''a banana'' @ dq @ nl @ nl
             @ ''Description: A banana.'' @ nl @ nl
             @ ''Note: No image was generated. The model may have returned only text.'')],
      demo_server\<lparr>lastImagePath := Some ''/img/a.PNG''\<rparr>,
      demo_world\<lparr>remote_log :=
        [\<lparr>req_apiKey = ''ENVKEY'', req_model = ''gemini-2.5-flash-image'',
          req_contents = PromptOnly ''a banana''\<rparr>]\<rparr>)
   \<and> buildImageResponse demo_rt (response_of [[text_part ''A banana.'']]) ''edited''
       ''add a hat'' [''first'', ''second'']
       (demo_server\<lparr>lastImagePath := Some ''/img/a.PNG''\<rparr>, demo_world) =
     (Inr [TextItem (''Image edited with nano-banana!'' @ nl @ nl
             @ ''Prompt: '' @ dq @ ''add a hat'' @ dq @ nl @ nl
             @ ''Description: A banana.'' @ nl @ nl
             @ ''Warnings:'' @ nl @ ''- first'' @ nl @ ''- second'' @ nl @ nl
             @ ''Note: No image was generated. The model may have returned only text.'')],
      demo_server\<lparr>lastImagePath := Some ''/img/a.PNG''\<rparr>, demo_world)
   \<and> buildImageResponse demo_rt (response_of [[text_part ''A banana.'']]) ''edited''
       ''add a hat'' []
       (demo_server\<lparr>lastImagePath := Some ''/img/a.PNG''\<rparr>, demo_world_nodir) =
     (Inl (Error ''EACCES: permission denied, mkdir''),
      demo_server\<lparr>lastImagePath := Some ''/img/a.PNG''\<rparr>, demo_world_nodir)"
proof -
  have cfg: "ensureConfigured (demo_server\<lparr>lastImagePath := Some ''/img/a.PNG''\<rparr>)"
    and key: "genAI demo_server = Some ''ENVKEY''"
    by (simp_all add: ensureConfigured_def demo_server_def)
  have mdl: "resolveModel (gen_model demo_generate_args) = Inr ''gemini-2.5-flash-image''"
    and pr: "gen_prompt demo_generate_args = ''a banana''"
    by (simp_all add: demo_generate_args_def resolveModel_default) (simp add: DEFAULT_MODEL_def)
  have wd: "provider demo_world = (\<lambda>req. Inr (response_of [[text_part ''A banana.'']]))"
    "mkdir_error demo_world = (\<lambda>p. None)" "remote_log demo_world = []"
    "mkdir_error demo_world_nodir = (\<lambda>p. Some ''EACCES: permission denied, mkdir'')"
    by (simp_all add: demo_world_def demo_world_nodir_def)
  show ?thesis
    using
      text_only_response [where resp = "response_of [[text_part ''A banana.'']]"
        and rt = demo_rt and s = "demo_server\<lparr>lastImagePath := Some ''/img/a.PNG''\<rparr>"
        and w = demo_world and a = demo_generate_args and m = "''gemini-2.5-flash-image''"
        and prefix = "''edited''" and promptText = "''add a hat''"
        and warnings = "[''first'', ''second'']"]
      text_only_response [where resp = "response_of [[text_part ''A banana.'']]"
        and rt = demo_rt and s = "demo_server\<lparr>lastImagePath := Some ''/img/a.PNG''\<rparr>"
        and w = demo_world_nodir and msg = "''EACCES: permission denied, mkdir''"
        and prefix = "''edited''" and promptText = "''add a hat''" and warnings = "[]"]
    by (simp add: demo_text_only cfg key mdl pr wd)
qed

theorem text_only_call_fails_counterexample:
  "image_parts (first_parts (response_of [[text_part ''A banana.'']])) = []
   \<and> provider demo_world_nodir
       \<lparr>req_apiKey = ''ENVKEY'', req_model = ''gemini-2.5-flash-image'',
        req_contents = PromptOnly ''a banana''\<rparr> =
     Inr (response_of [[text_part ''A banana.'']])
   \<and> generateImage demo_rt demo_generate_args (demo_server, demo_world_nodir) =
     (Inl (McpError InternalError
            ''Failed to generate image: EACCES: permission denied, mkdir''),
      demo_server,
      demo_world_nodir\<lparr>remote_log :=
        [\<lparr>req_apiKey = ''ENVKEY'', req_model = ''gemini-2.5-flash-image'',
          req_contents = PromptOnly ''a banana''\<rparr>]\<rparr>)"
proof -
  have cfg: "ensureConfigured demo_server" and key: "genAI demo_server = Some ''ENVKEY''"
    by (simp_all add: ensureConfigured_def demo_server_def)
  have mdl: "resolveModel (gen_model demo_generate_args) = Inr ''gemini-2.5-flash-image''"
    and pr: "gen_prompt demo_generate_args = ''a banana''"
    by (simp_all add: demo_generate_args_def resolveModel_default) (simp add: DEFAULT_MODEL_def)
  have wd: "provider demo_world_nodir = (\<lambda>req. Inr (response_of [[text_part ''A banana.'']]))"
    "remote_log demo_world_nodir = []"
    by (simp_all add: demo_world_def demo_world_nodir_def)
  have mk: "mkdir_error (demo_world_nodir\<lparr>remote_log := l\<rparr>) (getImagesDirectory demo_rt) =
      Some ''EACCES: permission denied, mkdir''" for l
    by (simp add: demo_world_nodir_def)
  show ?thesis
    by (simp add: demo_text_only generateImage_eq [OF cfg mdl] key pr wd
        buildImageResponse_no_dir [OF mk] message_def)
qed

section \<open>Response reassembly: the result\<close>

lemma statusText_explicit:
  "statusText prefix promptText textContent warnings savedFiles =
     ''Image '' @ (if prefix = ''generated'' then ''generated'' else ''edited'')
     @ '' with nano-banana!'' @ nl @ nl @ ''Prompt: '' @ dq @ promptText @ dq
     @ (if textContent = [] then [] else nl @ nl @ ''Description: '' @ textContent)
     @ (if warnings = [] then []
        else nl @ nl @ ''Warnings:'' @ nl @ join nl (map (\<lambda>x. ''- '' @ x) warnings))
     @ (if savedFiles = []
        then nl @ nl @ ''Note: No image was generated. The model may have returned only text.''
        else nl @ nl @ ''Image saved to:'' @ nl @ join nl (map (\<lambda>x. ''- '' @ x) savedFiles)
             @ nl @ nl @ ''To modify this image, use: continue_editing''
             @ nl @ ''To check current image info, use: get_last_image_info'')"
  unfolding statusText_def bullets_def by simp

lemma store_other: "p \<notin> fst ` set ws \<Longrightarrow> store f ws p = f p"
proof (induction ws arbitrary: f)
  case Nil
  show ?case by simp
next
  case (Cons x ws)
  obtain q e where x: "x = (q, e)" by (cases x) auto
  from Cons.prems x have "p \<noteq> q" "p \<notin> fst ` set ws" by auto
  then show ?case by (simp add: x store_Cons Cons.IH)
qed

lemma store_distinct:
  "distinct (map fst ws) \<Longrightarrow> (p, d) \<in> set ws \<Longrightarrow>
     store f ws p = Some \<lparr>fsize = length d, fbytes = Inr d\<rparr>"
proof (induction ws arbitrary: f)
  case Nil
  then show ?case by simp
next
  case (Cons x ws)
  obtain q e where x: "x = (q, e)" by (cases x) auto
  show ?case
  proof (cases "(p, d) = (q, e)")
    case True
    with Cons.prems x have "p \<notin> fst ` set ws" by auto
    then show ?thesis using True by (simp add: x store_Cons store_other)
  next
    case False
    with Cons.prems x have "distinct (map fst ws)" "(p, d) \<in> set ws" by auto
    then show ?thesis by (simp add: x store_Cons Cons.IH)
  qed
qed

lemma loop_last:
  "write_log (snd (snd (buildImageResponse_loop rt d pre ps acc (s, w)))) \<noteq> write_log w \<Longrightarrow>
     lastImagePath (fst (snd (buildImageResponse_loop rt d pre ps acc (s, w)))) =
       Some (fst (last (write_log (snd (snd (buildImageResponse_loop rt d pre ps acc (s, w)))))))"
proof (induction ps arbitrary: acc s w)
  case Nil
  then show ?case by simp
next
  case (Cons p ps)
  obtain t sf c where acc: "acc = (t, sf, c)"
    by (cases acc) auto
  show ?case
  proof (cases "image_data p")
    case None
    then show ?thesis using Cons.prems Cons.IH by (simp add: acc)
  next
    case (Some b)
    show ?thesis
    proof (cases "write_error w (artifact_path rt d pre w (ticks w))")
      case (Some m)
      then show ?thesis using \<open>image_data p = Some b\<close> Cons.prems
        by (simp add: acc saveImage_cases)
    next
      case None
      let ?p0 = "artifact_path rt d pre w (ticks w)"
      let ?w1 = "w\<lparr>ticks := Suc (ticks w),
             files := (files w)(?p0 \<mapsto>
                        \<lparr>fsize = length (b64decode rt b), fbytes = Inr (b64decode rt b)\<rparr>),
             write_log := write_log w @ [(?p0, b64decode rt b)]\<rparr>"
      let ?s1 = "s\<lparr>lastImagePath := Some ?p0\<rparr>"
      let ?acc1 = "(if truthy (part_text p) then t @ the (part_text p) else t,
                    sf @ [?p0], c @ [ImageItem b (image_mime p)])"
      let ?R = "buildImageResponse_loop rt d pre ps ?acc1 (?s1, ?w1)"
      have step: "buildImageResponse_loop rt d pre (p # ps) acc (s, w) = ?R"
        using None \<open>image_data p = Some b\<close> by (simp add: acc saveImage_cases)
      show ?thesis
      proof (cases "write_log (snd (snd ?R)) = write_log ?w1")
        case True
        from loop_frame [of ?s1 ?w1 rt d pre ps ?acc1] True
        have "fst (snd ?R) = ?s1"
          by (simp add: artifact_frame_def)
        then show ?thesis
          unfolding step using True by simp
      next
        case False
        from Cons.IH [OF False] show ?thesis
          unfolding step .
      qed
    qed
  qed
qed

lemma buildImageResponse_last:
  assumes "write_log (snd (snd (buildImageResponse rt resp pre pt ws (s, w)))) \<noteq> write_log w"
  shows "lastImagePath (fst (snd (buildImageResponse rt resp pre pt ws (s, w)))) =
       Some (fst (last (write_log (snd (snd (buildImageResponse rt resp pre pt ws (s, w)))))))"
proof (cases "mkdir_error w (getImagesDirectory rt)")
  case (Some m)
  then show ?thesis using assms by (simp add: buildImageResponse_def)
next
  case None
  let ?L = "buildImageResponse_loop rt (getImagesDirectory rt) pre (first_parts resp)
              ([], [], []) (s, w)"
  have "snd (buildImageResponse rt resp pre pt ws (s, w)) = snd ?L"
    using None
    by (cases ?L) (auto simp add: buildImageResponse_def Let_def split: sum.splits prod.splits)
  then show ?thesis
    using assms
      loop_last [of rt "getImagesDirectory rt" pre "first_parts resp" "([], [], [])" s w]
    by simp
qed

text \<open>C1, as the code has it: reassembly reads the parts of the first candidate only, so a
  response with later candidates gives the result and the state of the response cut to its
  first candidate. When the images directory can be made and every image write succeeds, the
  truthy texts of the parts are concatenated in order into the description of the returned
  status text, each image-bearing part is decoded from base64 and written to the path built
  from its own reading of the clock and of the random source, the written paths are listed
  in the status text in part order, each image is returned as an item, and \<open>lastImagePath\<close>
  is the path written for the last image part (unchanged without one); when the generated
  paths differ, every part ends in a file of its own. In every case, also when a write
  fails, \<open>lastImagePath\<close> is afterwards the path of the last file this call wrote, and the
  server is untouched when it wrote none.\<close>

theorem buildImageResponse_reassembly:
  "buildImageResponse rt \<lparr>candidates = Some (c # cs)\<rparr> prefix promptText warnings st =
     buildImageResponse rt \<lparr>candidates = Some [c]\<rparr> prefix promptText warnings st
   \<and> (mkdir_error w (getImagesDirectory rt) = None
       \<and> (\<forall>k\<in>{ticks w ..< ticks w + length (image_parts (first_parts resp))}.
             write_error w (artifact_path rt (getImagesDirectory rt) prefix w k) = None) \<longrightarrow>
       (let ps = first_parts resp;
            imgs = image_parts ps;
            paths = artifact_paths rt (getImagesDirectory rt) prefix w (ticks w) (length imgs);
            writes = zip paths (map (\<lambda>p. b64decode rt (the (image_data p))) imgs)
        in buildImageResponse rt resp prefix promptText warnings (s, w) =
             (Inr (TextItem
                    (''Image '' @ (if prefix = ''generated'' then ''generated'' else ''edited'')
                     @ '' with nano-banana!'' @ nl @ nl @ ''Prompt: '' @ dq @ promptText @ dq
                     @ (if texts ps = [] then [] else nl @ nl @ ''Description: '' @ texts ps)
                     @ (if warnings = [] then []
                        else nl @ nl @ ''Warnings:'' @ nl
                             @ join nl (map (\<lambda>x. ''- '' @ x) warnings))
                     @ (if imgs = []
                        then nl @ nl
                             @ ''Note: No image was generated. The model may have returned only text.''
                        else nl @ nl @ ''Image saved to:'' @ nl
                             @ join nl (map (\<lambda>x. ''- '' @ x) paths)
                             @ nl @ nl @ ''To modify this image, use: continue_editing''
                             @ nl @ ''To check current image info, use: get_last_image_info''))
                   # map (\<lambda>p. ImageItem (the (image_data p)) (image_mime p)) imgs),
              s\<lparr>lastImagePath := (if imgs = [] then lastImagePath s else Some (last paths))\<rparr>,
              w\<lparr>ticks := ticks w + length imgs,
                files := store (files w) writes,
                write_log := write_log w @ writes\<rparr>)
           \<and> (distinct paths \<longrightarrow>
                (\<forall>pd\<in>set writes.
                   files (snd (snd (buildImageResponse rt resp prefix promptText warnings (s, w))))
                     (fst pd) = Some \<lparr>fsize = length (snd pd), fbytes = Inr (snd pd)\<rparr>))))
   \<and> (write_log (snd (snd (buildImageResponse rt resp prefix promptText warnings (s, w))))
        = write_log w \<longrightarrow>
       fst (snd (buildImageResponse rt resp prefix promptText warnings (s, w))) = s)
   \<and> (write_log (snd (snd (buildImageResponse rt resp prefix promptText warnings (s, w))))
        \<noteq> write_log w \<longrightarrow>
       lastImagePath (fst (snd (buildImageResponse rt resp prefix promptText warnings (s, w)))) =
         Some (fst (last (write_log
           (snd (snd (buildImageResponse rt resp prefix promptText warnings (s, w))))))))"
proof -
  have fpeq: "first_parts \<lparr>candidates = Some (c # cs)\<rparr> = first_parts \<lparr>candidates = Some [c]\<rparr>"
    by (simp add: first_parts_def)
  have later: "buildImageResponse rt \<lparr>candidates = Some (c # cs)\<rparr> prefix promptText warnings st =
           buildImageResponse rt \<lparr>candidates = Some [c]\<rparr> prefix promptText warnings st"
    unfolding buildImageResponse_def fpeq by (rule refl)
  have ok: "(let ps = first_parts resp;
            imgs = image_parts ps;
            paths = artifact_paths rt (getImagesDirectory rt) prefix w (ticks w) (length imgs);
            writes = zip paths (map (\<lambda>p. b64decode rt (the (image_data p))) imgs)
        in buildImageResponse rt resp prefix promptText warnings (s, w) =
             (Inr (TextItem
                    (''Image '' @ (if prefix = ''generated'' then ''generated'' else ''edited'')
                     @ '' with nano-banana!'' @ nl @ nl @ ''Prompt: '' @ dq @ promptText @ dq
                     @ (if texts ps = [] then [] else nl @ nl @ ''Description: '' @ texts ps)
                     @ (if warnings = [] then []
                        else nl @ nl @ ''Warnings:'' @ nl
                             @ join nl (map (\<lambda>x. ''- '' @ x) warnings))
                     @ (if imgs = []
                        then nl @ nl
                             @ ''Note: No image was generated. The model may have returned only text.''
                        else nl @ nl @ ''Image saved to:'' @ nl
                             @ join nl (map (\<lambda>x. ''- '' @ x) paths)
                             @ nl @ nl @ ''To modify this image, use: continue_editing''
                             @ nl @ ''To check current image info, use: get_last_image_info''))
                   # map (\<lambda>p. ImageItem (the (image_data p)) (image_mime p)) imgs),
              s\<lparr>lastImagePath := (if imgs = [] then lastImagePath s else Some (last paths))\<rparr>,
              w\<lparr>ticks := ticks w + length imgs,
                files := store (files w) writes,
                write_log := write_log w @ writes\<rparr>)
           \<and> (distinct paths \<longrightarrow>
                (\<forall>pd\<in>set writes.
                   files (snd (snd (buildImageResponse rt resp prefix promptText warnings (s, w))))
                     (fst pd) = Some \<lparr>fsize = length (snd pd), fbytes = Inr (snd pd)\<rparr>)))"
    if h: "mkdir_error w (getImagesDirectory rt) = None"
       "\<forall>k\<in>{ticks w ..< ticks w + length (image_parts (first_parts resp))}.
             write_error w (artifact_path rt (getImagesDirectory rt) prefix w k) = None"
  proof -
    let ?imgs = "image_parts (first_parts resp)"
    let ?paths = "artifact_paths rt (getImagesDirectory rt) prefix w (ticks w) (length ?imgs)"
    let ?writes = "zip ?paths (map (\<lambda>p. b64decode rt (the (image_data p))) ?imgs)"
    note eq = buildImageResponse_ok [OF h, of promptText warnings s]
    have own: "files (snd (snd (buildImageResponse rt resp prefix promptText warnings (s, w))))
                 (fst pd) = Some \<lparr>fsize = length (snd pd), fbytes = Inr (snd pd)\<rparr>"
      if "distinct ?paths" "pd \<in> set ?writes" for pd
    proof -
      have "map fst ?writes = ?paths" by simp
      with that(1) have d: "distinct (map fst ?writes)" by simp
      from that(2) have m: "(fst pd, snd pd) \<in> set ?writes" by simp
      show ?thesis
        unfolding eq using store_distinct [OF d m] by simp
    qed
    show ?thesis
      unfolding Let_def using eq own
      by (simp add: statusText_explicit)
  qed
  have same: "fst (snd (buildImageResponse rt resp prefix promptText warnings (s, w))) = s"
    if "write_log (snd (snd (buildImageResponse rt resp prefix promptText warnings (s, w))))
          = write_log w"
    using that buildImageResponse_frame [of s w rt resp prefix promptText warnings]
    by (simp add: artifact_frame_def)
  show ?thesis
    apply (intro conjI impI)
    subgoal by (rule later)
    subgoal by (elim conjE) (rule ok)
    subgoal by (rule same)
    subgoal by (rule buildImageResponse_last)
    done
qed

lemma demo_response_parts:
  "first_parts demo_response =
      [text_part ''A '', image_part ''b64:IMG1'' ''image/webp'', text_part ''banana.'',
       image_part ''b64:IMG2'' []]"
  "image_parts [text_part ''A '', image_part ''b64:IMG1'' ''image/webp'', text_part ''banana.'',
       image_part ''b64:IMG2'' []] =
      [image_part ''b64:IMG1'' ''image/webp'', image_part ''b64:IMG2'' []]"
  "texts [text_part ''A '', image_part ''b64:IMG1'' ''image/webp'', text_part ''banana.'',
       image_part ''b64:IMG2'' []] = ''A banana.''"
  "image_data (image_part ''b64:IMG1'' m) = Some ''b64:IMG1''"
  "image_data (image_part ''b64:IMG2'' m) = Some ''b64:IMG2''"
  "image_mime (image_part d ''image/webp'') = ''image/webp''"
  "image_mime (image_part d []) = ''image/png''"
  by (simp_all add: demo_response_def response_of_def first_parts_def image_parts_def
      image_data_def image_mime_def text_part_def image_part_def truthy_def texts_def)

theorem buildImageResponse_reassembly_witness:
  "buildImageResponse demo_rt demo_response ''generated'' ''a banana'' [] (demo_server, demo_world) =
     (Inr [TextItem
            (''Image generated with nano-banana!'' @ nl @ nl
             @ ''Prompt: '' @ dq @ ''a banana'' @ dq @ nl @ nl
             @ ''Description: A banana.'' @ nl @ nl
             @ ''Image saved to:'' @ nl
             @ ''- /home/u/proj/generated_imgs/generated-2026-01-01T00-00-00-000Z-k3x9q0.png'' @ nl
             @ ''- /home/u/proj/generated_imgs/generated-2026-01-01T00-00-01-000Z-k3x9q1.png''
             @ nl @ nl @ ''To modify this image, use: continue_editing''
             @ nl @ ''To check current image info, use: get_last_image_info''),
           ImageItem ''b64:IMG1'' ''image/webp'', ImageItem ''b64:IMG2'' ''image/png''],
      demo_server\<lparr>lastImagePath :=
        Some ''/home/u/proj/generated_imgs/generated-2026-01-01T00-00-01-000Z-k3x9q1.png''\<rparr>,
      demo_world\<lparr>ticks := 2,
        files := store (files demo_world)
          [(''/home/u/proj/generated_imgs/generated-2026-01-01T00-00-00-000Z-k3x9q0.png'', ''IMG1''),
           (''/home/u/proj/generated_imgs/generated-2026-01-01T00-00-01-000Z-k3x9q1.png'', ''IMG2'')],
        write_log :=
          [(''/home/u/proj/generated_imgs/generated-2026-01-01T00-00-00-000Z-k3x9q0.png'', ''IMG1''),
           (''/home/u/proj/generated_imgs/generated-2026-01-01T00-00-01-000Z-k3x9q1.png'', ''IMG2'')]\<rparr>)
   \<and> files (snd (snd (buildImageResponse demo_rt demo_response ''generated'' ''a banana'' []
          (demo_server, demo_world))))
       ''/home/u/proj/generated_imgs/generated-2026-01-01T00-00-00-000Z-k3x9q0.png'' =
     Some \<lparr>fsize = 4, fbytes = Inr ''IMG1''\<rparr>"
proof -
  have dir: "getImagesDirectory demo_rt = ''/home/u/proj/generated_imgs''"
    by (simp add: getImagesDirectory_def demo_rt_def startsWith_def)
  have paths: "artifact_paths demo_rt ''/home/u/proj/generated_imgs'' ''generated'' demo_world 0
        (Suc (Suc 0)) =
      [''/home/u/proj/generated_imgs/generated-2026-01-01T00-00-00-000Z-k3x9q0.png'',
       ''/home/u/proj/generated_imgs/generated-2026-01-01T00-00-01-000Z-k3x9q1.png'']"
    by (simp add: artifact_paths_def artifact_path_def demo_rt_def demo_world_def
        show_nat.simps digit_def upt_rec)
  have t0: "ticks demo_world = 0" and w0: "write_log demo_world = []"
    and mk: "mkdir_error demo_world = (\<lambda>p. None)" and we: "write_error demo_world = (\<lambda>p. None)"
    by (simp_all add: demo_world_def)
  have dec: "b64decode demo_rt = drop 4"
    by (simp add: demo_rt_def)
  show ?thesis
    using buildImageResponse_reassembly [where w = demo_world and rt = demo_rt
        and resp = demo_response and prefix = "''generated''" and promptText = "''a banana''"
        and warnings = "[]" and s = demo_server and c = "\<lparr>cand_content = None\<rparr>"
        and cs = "[]" and st = "(demo_server, demo_world)"]
    by (simp add: Let_def demo_response_parts dir paths t0 w0 mk we dec numeral_2_eq_2
        store_Cons)
qed

theorem reassembly_write_counterexample:
  "image_parts (first_parts demo_response) =
     [image_part ''b64:IMG1'' ''image/webp'', image_part ''b64:IMG2'' []]
   \<and> fst (buildImageResponse demo_rt demo_response ''generated'' ''a banana'' []
          (demo_server, demo_world_full)) =
     Inl (Error ''ENOSPC: no space left on device'')
   \<and> write_log (snd (snd (buildImageResponse demo_rt demo_response ''generated'' ''a banana'' []
          (demo_server, demo_world_full)))) =
     [(''/home/u/proj/generated_imgs/generated-2026-01-01T00-00-00-000Z-k3x9q0.png'', ''IMG1'')]
   \<and> lastImagePath (fst (snd (buildImageResponse demo_rt demo_response ''generated''
          ''a banana'' [] (demo_server, demo_world_full)))) =
     Some ''/home/u/proj/generated_imgs/generated-2026-01-01T00-00-00-000Z-k3x9q0.png''
   \<and> write_log (snd (snd (buildImageResponse demo_rt demo_response ''generated'' ''a banana'' []
          (demo_server, demo_world_sametick)))) =
     [(''/home/u/proj/generated_imgs/generated-2026-01-01T00-00-00-000Z-k3x9q0.png'', ''IMG1''),
      (''/home/u/proj/generated_imgs/generated-2026-01-01T00-00-00-000Z-k3x9q0.png'', ''IMG2'')]
   \<and> files (snd (snd (buildImageResponse demo_rt demo_response ''generated'' ''a banana'' []
          (demo_server, demo_world_sametick))))
       ''/home/u/proj/generated_imgs/generated-2026-01-01T00-00-00-000Z-k3x9q0.png'' =
     Some \<lparr>fsize = 4, fbytes = Inr ''IMG2''\<rparr>"
proof -
  have full: "mkdir_error demo_world_full = (\<lambda>p. None)" "ticks demo_world_full = 0"
    "write_log demo_world_full = []"
    "write_error demo_world_full =
          (\<lambda>p. if p = ''/home/u/proj/generated_imgs/generated-2026-01-01T00-00-01-000Z-k3x9q1.png''
               then Some ''ENOSPC: no space left on device'' else None)"
    by (simp_all add: demo_world_full_def demo_world_def)
  have dec: "b64decode demo_rt = drop 4"
    by (simp add: demo_rt_def)
  have tp: "image_data (text_part t) = None" for t
    by (simp add: image_data_def text_part_def)
  have one: "buildImageResponse demo_rt demo_response ''generated'' ''a banana'' []
          (demo_server, demo_world_full) =
      (Inl (Error ''ENOSPC: no space left on device''),
       demo_server\<lparr>lastImagePath :=
         Some ''/home/u/proj/generated_imgs/generated-2026-01-01T00-00-00-000Z-k3x9q0.png''\<rparr>,
       demo_world_full\<lparr>ticks := Suc (Suc 0),
         files := (files demo_world_full)
           (''/home/u/proj/generated_imgs/generated-2026-01-01T00-00-00-000Z-k3x9q0.png'' \<mapsto>
              \<lparr>fsize = length ''IMG1'', fbytes = Inr ''IMG1''\<rparr>),
         write_log :=
           [(''/home/u/proj/generated_imgs/generated-2026-01-01T00-00-00-000Z-k3x9q0.png'',
             ''IMG1'')]\<rparr>)"
    by (simp add: buildImageResponse_def full demo_images_dir demo_response_parts(1,4,5) tp
        saveImage_cases demo_paths)
       (simp add: dec)
  have same: "mkdir_error demo_world_sametick (getImagesDirectory demo_rt) = None"
    "\<forall>k\<in>{ticks demo_world_sametick ..<
           ticks demo_world_sametick + length (image_parts (first_parts demo_response))}.
       write_error demo_world_sametick
         (artifact_path demo_rt (getImagesDirectory demo_rt) ''generated'' demo_world_sametick k)
       = None"
    by (simp_all add: demo_world_sametick_def demo_world_def)
  have st: "ticks demo_world_sametick = 0" "write_log demo_world_sametick = []"
    by (simp_all add: demo_world_sametick_def demo_world_def)
  have paths: "artifact_paths demo_rt ''/home/u/proj/generated_imgs'' ''generated''
        demo_world_sametick 0 (Suc (Suc 0)) =
      [''/home/u/proj/generated_imgs/generated-2026-01-01T00-00-00-000Z-k3x9q0.png'',
       ''/home/u/proj/generated_imgs/generated-2026-01-01T00-00-00-000Z-k3x9q0.png'']"
    by (simp add: artifact_paths_def artifact_path_def demo_rt_def demo_world_sametick_def
        demo_world_def upt_rec)
  show ?thesis
    by (simp add: one buildImageResponse_ok [OF same] demo_response_parts demo_images_dir st
        paths dec store_Cons)
qed

section \<open>Editing with reference images: the request and the warnings\<close>

lemma refs_split:
  "length (loaded_refs rt w refs) + length (ref_warnings rt w refs) = length refs"
  by (induction refs)
     (simp_all add: loaded_refs_def ref_warnings_def map_filter_simps split: sum.splits)

lemma editImage_success:
  assumes "ensureConfigured s"
    and "resolveModel (edit_model args) = Inr m"
    and "validateImagePath rt w (edit_imagePath args) = Inr ()"
    and "fs_readFile w (edit_imagePath args) = Inr buf"
    and "provider w (edit_request rt w (the (genAI s)) m args buf) = Inr resp"
    and "mkdir_error w (getImagesDirectory rt) = None"
    and "\<forall>k\<in>{ticks w ..< ticks w + length (image_parts (first_parts resp))}.
           write_error w (artifact_path rt (getImagesDirectory rt) ''edited'' w k) = None"
  shows "editImage rt args (s, w) =
      (Inr (TextItem
             (statusText ''edited'' (edit_prompt args) (texts (first_parts resp))
                (ref_warnings rt w
                   (case edit_referenceImages args of None \<Rightarrow> [] | Some rs \<Rightarrow> rs))
                (artifact_paths rt (getImagesDirectory rt) ''edited'' w (ticks w)
                   (length (image_parts (first_parts resp)))))
            # map (\<lambda>p. ImageItem (the (image_data p)) (image_mime p))
                (image_parts (first_parts resp))),
       s\<lparr>lastImagePath :=
            (if image_parts (first_parts resp) = [] then lastImagePath s
             else Some (last (artifact_paths rt (getImagesDirectory rt) ''edited'' w (ticks w)
                                (length (image_parts (first_parts resp))))))\<rparr>,
       w\<lparr>remote_log := remote_log w @ [edit_request rt w (the (genAI s)) m args buf],
         ticks := ticks w + length (image_parts (first_parts resp)),
         files := store (files w)
            (zip (artifact_paths rt (getImagesDirectory rt) ''edited'' w (ticks w)
                    (length (image_parts (first_parts resp))))
                 (map (\<lambda>p. b64decode rt (the (image_data p)))
                    (image_parts (first_parts resp)))),
         write_log := write_log w @
            zip (artifact_paths rt (getImagesDirectory rt) ''edited'' w (ticks w)
                   (length (image_parts (first_parts resp))))
                (map (\<lambda>p. b64decode rt (the (image_data p)))
                   (image_parts (first_parts resp)))\<rparr>)"
proof -
  let ?w1 = "w\<lparr>remote_log := remote_log w @ [edit_request rt w (the (genAI s)) m args buf]\<rparr>"
  have mk: "mkdir_error ?w1 (getImagesDirectory rt) = None"
    using assms(6) by simp
  have wr: "\<forall>k\<in>{ticks ?w1 ..< ticks ?w1 + length (image_parts (first_parts resp))}.
           write_error ?w1 (artifact_path rt (getImagesDirectory rt) ''edited'' ?w1 k) = None"
    using assms(7) by simp
  show ?thesis
    using assms(5)
    by (simp add: editImage_ok [OF assms(1-4)] buildImageResponse_ok [OF mk wr])
qed

text \<open>C2, as the code has it: in an edit call whose primary image passes validation (which
  the code runs once the credential and the model id have passed), the primary image is
  read first, and a failed read aborts the call with \<open>InternalError\<close> before any reference is
  looked at or any request sent. When it is read, every reference image is validated and
  read on its own, in input order; one that fails is left out of the request and gives
  exactly one warning \<open>Skipped reference image "<path>": <reason>\<close>, and the call goes on:
  the provider is called once, with the primary image (base64 content and mime type of
  its extension) first, the loaded references in input order next and the prompt text last.
  Each reference is either loaded or warned about, and when the response is reassembled
  the warnings are listed, in input order, in the returned status text.\<close>

theorem editImage_references:
  assumes "ensureConfigured s"
    and "resolveModel (edit_model args) = Inr m"
    and "validateImagePath rt w (edit_imagePath args) = Inr ()"
  shows "(fs_readFile w (edit_imagePath args) = Inl msg \<longrightarrow>
            editImage rt args (s, w) =
              (Inl (McpError InternalError (''Failed to edit image: '' @ msg)), s, w))
    \<and> (fs_readFile w (edit_imagePath args) = Inr buf \<longrightarrow>
         (let refs = (case edit_referenceImages args of None \<Rightarrow> [] | Some rs \<Rightarrow> rs);
              req = \<lparr>req_apiKey = the (genAI s), req_model = m,
                     req_contents =
                       Parts (ImagePart (b64encode rt buf) (getMimeType rt (edit_imagePath args))
                              # loaded_refs rt w refs @ [TextPart (edit_prompt args)])\<rparr>;
              w1 = w\<lparr>remote_log := remote_log w @ [req]\<rparr>
          in editImage rt args (s, w) =
               (case provider w req of
                  Inl msg \<Rightarrow>
                    (Inl (McpError InternalError (''Failed to edit image: '' @ msg)), s, w1)
                | Inr resp \<Rightarrow>
                    (case buildImageResponse rt resp ''edited'' (edit_prompt args)
                            (ref_warnings rt w refs) (s, w1) of
                       (Inl e, st1) \<Rightarrow> (Inl (editImage_catch e), st1)
                     | (Inr r, st1) \<Rightarrow> (Inr r, st1)))
             \<and> length (loaded_refs rt w refs) + length (ref_warnings rt w refs) = length refs
             \<and> (provider w req = Inr resp
                 \<and> mkdir_error w (getImagesDirectory rt) = None
                 \<and> (\<forall>k\<in>{ticks w ..< ticks w + length (image_parts (first_parts resp))}.
                       write_error w
                         (artifact_path rt (getImagesDirectory rt) ''edited'' w k) = None) \<longrightarrow>
                 (let ps = first_parts resp;
                      imgs = image_parts ps;
                      paths = artifact_paths rt (getImagesDirectory rt) ''edited'' w (ticks w)
                                (length imgs);
                      writes = zip paths (map (\<lambda>p. b64decode rt (the (image_data p))) imgs)
                  in editImage rt args (s, w) =
                       (Inr (TextItem
                              (''Image edited with nano-banana!'' @ nl @ nl
                               @ ''Prompt: '' @ dq @ edit_prompt args @ dq
                               @ (if texts ps = [] then []
                                  else nl @ nl @ ''Description: '' @ texts ps)
                               @ (if ref_warnings rt w refs = [] then []
                                  else nl @ nl @ ''Warnings:'' @ nl
                                       @ join nl (map (\<lambda>x. ''- '' @ x) (ref_warnings rt w refs)))
                               @ (if imgs = []
                                  then nl @ nl
                                       @ ''Note: No image was generated. The model may have returned only text.''
                                  else nl @ nl @ ''Image saved to:'' @ nl
                                       @ join nl (map (\<lambda>x. ''- '' @ x) paths)
                                       @ nl @ nl @ ''To modify this image, use: continue_editing''
                                       @ nl
                                       @ ''To check current image info, use: get_last_image_info''))
                             # map (\<lambda>p. ImageItem (the (image_data p)) (image_mime p)) imgs),
                        s\<lparr>lastImagePath :=
                             (if imgs = [] then lastImagePath s else Some (last paths))\<rparr>,
                        w\<lparr>remote_log := remote_log w @ [req],
                          ticks := ticks w + length imgs,
                          files := store (files w) writes,
                          write_log := write_log w @ writes\<rparr>)))))"
proof -
  have rd: "editImage rt args (s, w) =
              (Inl (McpError InternalError (''Failed to edit image: '' @ msg)), s, w)"
    if "fs_readFile w (edit_imagePath args) = Inl msg"
    using editImage_early(4) [OF assms that] .
  have main: "(let refs = (case edit_referenceImages args of None \<Rightarrow> [] | Some rs \<Rightarrow> rs);
              req = \<lparr>req_apiKey = the (genAI s), req_model = m,
                     req_contents =
                       Parts (ImagePart (b64encode rt buf) (getMimeType rt (edit_imagePath args))
                              # loaded_refs rt w refs @ [TextPart (edit_prompt args)])\<rparr>;
              w1 = w\<lparr>remote_log := remote_log w @ [req]\<rparr>
          in editImage rt args (s, w) =
               (case provider w req of
                  Inl msg \<Rightarrow>
                    (Inl (McpError InternalError (''Failed to edit image: '' @ msg)), s, w1)
                | Inr resp \<Rightarrow>
                    (case buildImageResponse rt resp ''edited'' (edit_prompt args)
                            (ref_warnings rt w refs) (s, w1) of
                       (Inl e, st1) \<Rightarrow> (Inl (editImage_catch e), st1)
                     | (Inr r, st1) \<Rightarrow> (Inr r, st1)))
             \<and> length (loaded_refs rt w refs) + length (ref_warnings rt w refs) = length refs
             \<and> (provider w req = Inr resp
                 \<and> mkdir_error w (getImagesDirectory rt) = None
                 \<and> (\<forall>k\<in>{ticks w ..< ticks w + length (image_parts (first_parts resp))}.
                       write_error w
                         (artifact_path rt (getImagesDirectory rt) ''edited'' w k) = None) \<longrightarrow>
                 (let ps = first_parts resp;
                      imgs = image_parts ps;
                      paths = artifact_paths rt (getImagesDirectory rt) ''edited'' w (ticks w)
                                (length imgs);
                      writes = zip paths (map (\<lambda>p. b64decode rt (the (image_data p))) imgs)
                  in editImage rt args (s, w) =
                       (Inr (TextItem
                              (''Image edited with nano-banana!'' @ nl @ nl
                               @ ''Prompt: '' @ dq @ edit_prompt args @ dq
                               @ (if texts ps = [] then []
                                  else nl @ nl @ ''Description: '' @ texts ps)
                               @ (if ref_warnings rt w refs = [] then []
                                  else nl @ nl @ ''Warnings:'' @ nl
                                       @ join nl (map (\<lambda>x. ''- '' @ x) (ref_warnings rt w refs)))
                               @ (if imgs = []
                                  then nl @ nl
                                       @ ''Note: No image was generated. The model may have returned only text.''
                                  else nl @ nl @ ''Image saved to:'' @ nl
                                       @ join nl (map (\<lambda>x. ''- '' @ x) paths)
                                       @ nl @ nl @ ''To modify this image, use: continue_editing''
                                       @ nl
                                       @ ''To check current image info, use: get_last_image_info''))
                             # map (\<lambda>p. ImageItem (the (image_data p)) (image_mime p)) imgs),
                        s\<lparr>lastImagePath :=
                             (if imgs = [] then lastImagePath s else Some (last paths))\<rparr>,
                        w\<lparr>remote_log := remote_log w @ [req],
                          ticks := ticks w + length imgs,
                          files := store (files w) writes,
                          write_log := write_log w @ writes\<rparr>))))"
    if r: "fs_readFile w (edit_imagePath args) = Inr buf"
  proof -
    note ok = editImage_ok [OF assms r, unfolded edit_request_def]
    have suc: "provider w (edit_request rt w (the (genAI s)) m args buf) = Inr resp \<Longrightarrow>
        mkdir_error w (getImagesDirectory rt) = None \<Longrightarrow>
        \<forall>k\<in>{ticks w ..< ticks w + length (image_parts (first_parts resp))}.
           write_error w (artifact_path rt (getImagesDirectory rt) ''edited'' w k) = None \<Longrightarrow>
        editImage rt args (s, w) = (Inr (TextItem
             (statusText ''edited'' (edit_prompt args) (texts (first_parts resp))
                (ref_warnings rt w
                   (case edit_referenceImages args of None \<Rightarrow> [] | Some rs \<Rightarrow> rs))
                (artifact_paths rt (getImagesDirectory rt) ''edited'' w (ticks w)
                   (length (image_parts (first_parts resp)))))
            # map (\<lambda>p. ImageItem (the (image_data p)) (image_mime p))
                (image_parts (first_parts resp))),
       s\<lparr>lastImagePath :=
            (if image_parts (first_parts resp) = [] then lastImagePath s
             else Some (last (artifact_paths rt (getImagesDirectory rt) ''edited'' w (ticks w)
                                (length (image_parts (first_parts resp))))))\<rparr>,
       w\<lparr>remote_log := remote_log w @ [edit_request rt w (the (genAI s)) m args buf],
         ticks := ticks w + length (image_parts (first_parts resp)),
         files := store (files w)
            (zip (artifact_paths rt (getImagesDirectory rt) ''edited'' w (ticks w)
                    (length (image_parts (first_parts resp))))
                 (map (\<lambda>p. b64decode rt (the (image_data p)))
                    (image_parts (first_parts resp)))),
         write_log := write_log w @
            zip (artifact_paths rt (getImagesDirectory rt) ''edited'' w (ticks w)
                   (length (image_parts (first_parts resp))))
                (map (\<lambda>p. b64decode rt (the (image_data p)))
                   (image_parts (first_parts resp)))\<rparr>)"
      by (rule editImage_success [OF assms r])
    show ?thesis
      unfolding Let_def
      apply (intro conjI impI)
      subgoal by (rule ok)
      subgoal by (rule refs_split)
      subgoal
        apply (elim conjE)
        apply (drule suc [unfolded edit_request_def statusText_explicit])
        apply assumption+
        apply simp
        done
      done
  qed
  show ?thesis
    apply (intro conjI impI)
    subgoal by (rule rd)
    subgoal by (rule main)
    done
qed

theorem editImage_references_witness:
  "editImage demo_rt demo_edit_args (demo_server, demo_world) =
     (Inr [TextItem
            (''Image edited with nano-banana!'' @ nl @ nl
             @ ''Prompt: '' @ dq @ ''add a hat'' @ dq @ nl @ nl
             @ ''Description: A banana.'' @ nl @ nl
             @ ''Warnings:'' @ nl
             @ ''- Skipped reference image '' @ dq @ ''/img/none.png'' @ dq
             @ '': MCP error -32602: Image file not found: /img/none.png'' @ nl
             @ ''- Skipped reference image '' @ dq @ ''/img/big.jpg'' @ dq
             @ '': MCP error -32602: Image file too large (20MB). Maximum: 20MB'' @ nl
             @ ''- Skipped reference image '' @ dq @ ''/img/locked.webp'' @ dq
             @ '': EACCES: permission denied'' @ nl @ nl
             @ ''Note: No image was generated. The model may have returned only text.'')],
      demo_server,
      demo_world\<lparr>remote_log :=
        [\<lparr>req_apiKey = ''ENVKEY'', req_model = ''gemini-2.5-flash-image'',
          req_contents =
            Parts [ImagePart ''b64:AAA'' ''image/png'', ImagePart ''b64:RRR'' ''image/gif'',
                   TextPart ''add a hat'']\<rparr>]\<rparr>)
   \<and> editImage demo_rt (demo_edit_args\<lparr>edit_imagePath := ''/img/locked.webp''\<rparr>)
       (demo_server, demo_world) =
     (Inl (McpError InternalError ''Failed to edit image: EACCES: permission denied''),
      demo_server, demo_world)"
proof -
  have cfg: "ensureConfigured demo_server" and key: "genAI demo_server = Some ''ENVKEY''"
    by (simp_all add: ensureConfigured_def demo_server_def)
  have mdl: "resolveModel (edit_model demo_edit_args) = Inr ''gemini-2.5-flash-image''"
    "resolveModel (edit_model (demo_edit_args\<lparr>edit_imagePath := ''/img/locked.webp''\<rparr>)) =
       Inr ''gemini-2.5-flash-image''"
    by (simp_all add: resolveModel_def demo_edit_args_def DEFAULT_MODEL_def)
  have val: "validateImagePath demo_rt demo_world (edit_imagePath demo_edit_args) = Inr ()"
    "validateImagePath demo_rt demo_world
       (edit_imagePath (demo_edit_args\<lparr>edit_imagePath := ''/img/locked.webp''\<rparr>)) = Inr ()"
    by (simp_all add: demo_edit_args_def demo_validate)
  have args: "edit_referenceImages demo_edit_args =
        Some [''/img/none.png'', ''/img/big.jpg'', ''/img/ref.gif'', ''/img/locked.webp'']"
      "edit_prompt demo_edit_args = ''add a hat''"
      "edit_imagePath demo_edit_args = ''/img/a.PNG''"
    by (simp_all add: demo_edit_args_def)
  have wd: "provider demo_world = (\<lambda>req. Inr (response_of [[text_part ''A banana.'']]))"
    "remote_log demo_world = []" "mkdir_error demo_world = (\<lambda>p. None)"
    "ticks demo_world = 0" "write_log demo_world = []"
    and enc: "b64encode demo_rt = (\<lambda>b. ''b64:'' @ b)"
    by (simp_all add: demo_world_def demo_rt_def)
  have st: "store f [] = f" for f :: "string \<Rightarrow> fs_file option"
    by simp
  have eqw: "demo_world\<lparr>remote_log := l, ticks := 0, write_log := []\<rparr>
      = demo_world\<lparr>remote_log := l\<rparr>" for l
    by (simp add: demo_world_def)
  have rd: "fs_readFile demo_world (edit_imagePath demo_edit_args) = Inr ''AAA''"
    "fs_readFile demo_world
       (edit_imagePath (demo_edit_args\<lparr>edit_imagePath := ''/img/locked.webp''\<rparr>)) =
      Inl ''EACCES: permission denied''"
    by (simp_all add: args demo_read)
  note loaded =
    editImage_references [OF cfg mdl(1) val(1), where buf = "''AAA''"
      and resp = "response_of [[text_part ''A banana.'']]", THEN conjunct2, unfolded Let_def,
      rule_format, OF rd(1), THEN conjunct2, THEN conjunct2, rule_format]
  note unread =
    editImage_references [OF cfg mdl(2) val(2), where msg = "''EACCES: permission denied''",
      THEN conjunct1, rule_format, OF rd(2)]
  show ?thesis
    using loaded unread
    by (simp add: args key wd enc demo_refs demo_mime demo_text_only eqw)
qed

theorem unreadable_primary_counterexample:
  "validateImagePath demo_rt demo_world ''/img/locked.webp'' = Inr ()
   \<and> editImage demo_rt (demo_edit_args\<lparr>edit_imagePath := ''/img/locked.webp''\<rparr>)
       (demo_server, demo_world) =
     (Inl (McpError InternalError ''Failed to edit image: EACCES: permission denied''),
      demo_server, demo_world)
   \<and> remote_log demo_world = []"
proof -
  have cfg: "ensureConfigured demo_server"
    by (simp add: ensureConfigured_def demo_server_def)
  have mdl: "resolveModel (edit_model (demo_edit_args\<lparr>edit_imagePath := ''/img/locked.webp''\<rparr>)) =
       Inr ''gemini-2.5-flash-image''"
    by (simp add: resolveModel_def demo_edit_args_def DEFAULT_MODEL_def)
  have val: "validateImagePath demo_rt demo_world
       (edit_imagePath (demo_edit_args\<lparr>edit_imagePath := ''/img/locked.webp''\<rparr>)) = Inr ()"
    by (simp add: demo_validate)
  have rd: "fs_readFile demo_world
       (edit_imagePath (demo_edit_args\<lparr>edit_imagePath := ''/img/locked.webp''\<rparr>)) =
      Inl ''EACCES: permission denied''"
    by (simp add: demo_read)
  show ?thesis
    using editImage_early(4) [OF cfg mdl val rd]
    by (simp add: demo_validate) (simp add: demo_world_def)
qed

end
